theory Spec2Isabelle
  imports Main "HOL-Library.Word"
begin

section \<open>Chunked upload server: data model\<close>

text \<open>
  The repository holds four revisions of one Express server. This development follows
  the current one (the revision with \<^verbatim>\<open>receivedChunksMap\<close>, gzip compression and
  file groups), handler by handler. The earlier chunked revision \<^verbatim>\<open>server.js\<close> has
  neither the received set nor compression; its three chunk handlers are modelled
  separately under \<open>legacy_\<close> names, and the last section says where they agree
  with the current ones and where they do not.

  Conventions of the embedding:
  \<^item> a JavaScript number that the handlers obtain from \<^verbatim>\<open>parseInt\<close> is an
    \<open>int option\<close>, \<open>None\<close> being \<^verbatim>\<open>NaN\<close> (integers are taken exactly, which a
    double does below \<open>2^53\<close>);
  \<^item> a request field is a \<open>string option\<close>, \<open>None\<close> being \<^verbatim>\<open>undefined\<close> or a
    value that is no string; a flag such as \<^verbatim>\<open>compress\<close> is the truth value that
    JavaScript gives the field;
  \<^item> the session table is a map from upload ids to entries (an upload id is taken not
    to be the name of a member of \<^verbatim>\<open>Object.prototype\<close>);
  \<^item> the disk is a finite map from paths to file contents; a path is its list of
    segments below the server's directory, and \<^verbatim>\<open>path.join(dir, name)\<close> appends the
    segment \<open>name\<close> (identifiers and index strings are taken to be single path
    segments; directories are implicit, so \<^verbatim>\<open>mkdirSync\<close> has no effect on the map);
  \<^item> multer's temporary file is the payload carried by the request: every branch of
    the chunk handler that receives it also unlinks it, so it never stays on the disk;
  \<^item> each handler runs to completion before the next request is taken (the streams'
    callbacks are folded into the handler); the chunk handler is also given in two
    halves, the checks and the \<^verbatim>\<open>finish\<close> callback, for the runs in which
    chunk requests overlap;
  \<^item> the file system is in order: a write or \<^verbatim>\<open>mkdirSync\<close> that the handlers
    attempt succeeds (the init handler is also given with the file system's answer as
    a parameter);
  \<^item> clock readings, random bytes and the Node library functions \<^verbatim>\<open>path.extname\<close>
    and \<^verbatim>\<open>zlib.createGzip\<close> are parameters, collected in the record \<open>env\<close>.
\<close>

type_synonym byte = "8 word"
type_synonym bytes = "byte list"
type_synonym path = "string list"
type_synonym num = "int option"

subsection \<open>Numbers and strings of the runtime\<close>

text \<open>\<^verbatim>\<open>i.toString()\<close> for a non-negative integer: its decimal digits.\<close>

definition digit_char :: "nat \<Rightarrow> char" where
  "digit_char d = ''0123456789'' ! d"

function toString_nat :: "nat \<Rightarrow> string" where
  "toString_nat n =
     (if n < 10 then [digit_char n]
      else toString_nat (n div 10) @ [digit_char (n mod 10)])"
  by pat_completeness auto
termination
  by (relation "measure id") auto

declare toString_nat.simps [simp del]

text \<open>
  \<^verbatim>\<open>parseInt(s)\<close> with no radix: leading white space is skipped, one sign is read, a
  prefix \<^verbatim>\<open>0x\<close> or \<^verbatim>\<open>0X\<close> selects radix 16, and the longest run of digits of the
  radix is the value; with no digit the result is \<^verbatim>\<open>NaN\<close>. Only the ASCII white
  space characters are modelled.
\<close>

definition isWhite :: "char \<Rightarrow> bool" where
  "isWhite c = (let k = (of_char c :: nat) in (9 \<le> k \<and> k \<le> 13) \<or> k = 32)"

definition digit_val :: "char \<Rightarrow> nat option" where
  "digit_val c =
     (let k = (of_char c :: nat) in
      if 48 \<le> k \<and> k \<le> 57 then Some (k - 48)
      else if 97 \<le> k \<and> k \<le> 102 then Some (k - 87)
      else if 65 \<le> k \<and> k \<le> 70 then Some (k - 55)
      else None)"

definition isDigit :: "nat \<Rightarrow> char \<Rightarrow> bool" where
  "isDigit R c = (case digit_val c of None \<Rightarrow> False | Some v \<Rightarrow> v < R)"

definition digits_value :: "nat \<Rightarrow> string \<Rightarrow> nat" where
  "digits_value R Z = foldl (\<lambda>a c. a * R + (case digit_val c of None \<Rightarrow> 0 | Some v \<Rightarrow> v)) 0 Z"

definition parseInt :: "string \<Rightarrow> num" where
  "parseInt s =
     (let S = dropWhile isWhite s;
          sign = (case S of [] \<Rightarrow> 1 | c # r \<Rightarrow> if c = CHR ''-'' then - 1 else (1::int));
          S1 = (case S of [] \<Rightarrow> [] | c # r \<Rightarrow> if c = CHR ''-'' \<or> c = CHR ''+'' then r else S);
          hex = (take 2 S1 = ''0x'' \<or> take 2 S1 = ''0X'');
          R = (if hex then 16 else 10);
          S2 = (if hex then drop 2 S1 else S1);
          Z = takeWhile (isDigit R) S2
      in if Z = [] then None else Some (sign * int (digits_value R Z)))"

text \<open>A request field that is \<^verbatim>\<open>undefined\<close> parses to \<^verbatim>\<open>NaN\<close>.\<close>

definition parseInt_field :: "string option \<Rightarrow> num" where
  "parseInt_field v = (case v of None \<Rightarrow> None | Some s \<Rightarrow> parseInt s)"

text \<open>\<^verbatim>\<open>a < b\<close> on numbers: false when the left operand is \<^verbatim>\<open>NaN\<close>.\<close>

definition num_lt :: "num \<Rightarrow> int \<Rightarrow> bool" where
  "num_lt a b = (case a of None \<Rightarrow> False | Some x \<Rightarrow> x < b)"

text \<open>\<^verbatim>\<open>crypto.randomBytes(3).toString('hex')\<close>: two lowercase hex digits per byte.\<close>

definition hex_digit :: "nat \<Rightarrow> char" where
  "hex_digit d = ''0123456789abcdef'' ! d"

definition hex_byte :: "byte \<Rightarrow> string" where
  "hex_byte b = [hex_digit (unat b div 16), hex_digit (unat b mod 16)]"

definition toString_hex :: "byte \<times> byte \<times> byte \<Rightarrow> string" where
  "toString_hex r = (case r of (a, b, c) \<Rightarrow> hex_byte a @ hex_byte b @ hex_byte c)"

text \<open>An object key: \<^verbatim>\<open>chunkedUploads[undefined]\<close> reads the property named "undefined".\<close>

definition prop_key :: "string option \<Rightarrow> string" where
  "prop_key v = (case v of None \<Rightarrow> ''undefined'' | Some s \<Rightarrow> s)"

definition path_join :: "path \<Rightarrow> string \<Rightarrow> path" where
  "path_join dir name = dir @ [name]"

definition uploadsDir :: path where
  "uploadsDir = [''uploads'']"

definition chunksDir :: path where
  "chunksDir = [''chunks'']"

subsection \<open>Sessions, records, server state\<close>

text \<open>One entry of \<^verbatim>\<open>chunkedUploads\<close>, as the init handler builds it.\<close>

record uploadInfo =
  filename :: "string option"
  totalChunks :: num
  receivedChunks :: nat
  receivedChunksMap :: "num set"
  fileSize :: num
  mimeType :: "string option"
  uploadChunksDir :: path
  createdAt :: nat
  chunkSize :: nat

text \<open>
  One element of \<^verbatim>\<open>db.files\<close>. The field \<^verbatim>\<open>compressionRatio\<close> (a number formatted
  with \<^verbatim>\<open>toFixed(2)\<close>) is informational and left out.
\<close>

record fileRecord =
  rec_id :: string
  rec_internalId :: string
  rec_filename :: string
  rec_storedFilename :: string
  rec_mimetype :: "string option"
  rec_originalMimetype :: "string option"
  rec_size :: nat
  rec_originalSize :: num
  rec_compressed :: bool
  rec_uploadDate :: string
  rec_chunked :: bool

record groupRecord =
  grp_id :: string
  grp_name :: string
  grp_fileIds :: "string list"
  grp_createdAt :: string
  grp_fileCount :: nat

record server =
  chunkedUploads :: "string \<rightharpoonup> uploadInfo"
  disk :: "path \<rightharpoonup> bytes"
  db_files :: "fileRecord list"
  db_groups :: "groupRecord list"

text \<open>What a handler reads from the clock, the random source and the Node library.\<close>

record env =
  dateNow :: nat
  randomBytes3 :: "byte \<times> byte \<times> byte"
  timestamp :: nat
  uniqueId :: string
  isoDate :: string
  extname :: "string \<Rightarrow> string"
  gzip :: "bytes \<Rightarrow> bytes"
  gzip_unended :: "bytes \<Rightarrow> bytes"

text \<open>The file that multer hands to the single upload handler.\<close>

record reqFile =
  originalname :: string
  multer_filename :: string
  file_mimetype :: string
  content :: bytes

subsection \<open>Responses\<close>

datatype error = TypeError | MissingChunk nat

text \<open>The JSON body of a successful upload (both upload paths answer with this shape).\<close>

record uploadBody =
  res_code :: string
  res_filename :: string
  res_size :: nat
  res_originalSize :: num
  res_compressed :: bool
  res_uploadTime :: nat

text \<open>
  One constructor per \<^verbatim>\<open>res.json\<close> of the handlers. \<open>CompleteFailed\<close> is the status
  500 answer of the complete handler; its argument is the exception that the handler
  caught and logged (the body only says that completion failed). \<open>NoResponse\<close> stands
  for a callback whose answer is not modelled (a timer answers nobody).
\<close>

datatype response =
    InitOk
  | InitFailed
  | InvalidUploadId
  | ChunkTooLarge
  | ChunkOk nat num
  | ChunkDuplicate nat num
  | NoChunkFile
  | EmptyChunk
  | ChunkFailed
  | NotAllChunks nat num
  | CompleteFailed error
  | CompleteOk uploadBody
  | FileTooLarge
  | NoFileUploaded
  | UploadOk uploadBody
  | FileNotFound
  | FileNotOnServer
  | DownloadInfo fileRecord
  | NoFileIds
  | GroupFileNotFound string
  | GroupOk string string "fileRecord list"
  | NoResponse

section \<open>The handlers\<close>

subsection \<open>POST /api/upload/init\<close>

text \<open>
  \<^verbatim>\<open>path.join(chunksDir, uploadId)\<close> throws on a value that is no string, which the
  handler answers with status 500. The parameters \<^verbatim>\<open>filename\<close> and
  \<^verbatim>\<open>totalChunks\<close> are stored without any check. In \<open>upload_init\<close> the directory
  of the session exists or \<^verbatim>\<open>fs.mkdirSync\<close> creates it, as on a file system in
  order for an id that is a legal file name.
\<close>

definition upload_init ::
  "env \<Rightarrow> string option \<Rightarrow> string option \<Rightarrow> string option \<Rightarrow> string option \<Rightarrow>
   string option \<Rightarrow> nat option \<Rightarrow> server \<Rightarrow> response \<times> server" where
  "upload_init e uploadId fname totalChunksF fileSizeF mimeTypeF chunkSizeF st =
     (case uploadId of
        None \<Rightarrow> (InitFailed, st)
      | Some uid \<Rightarrow>
          (InitOk,
           st\<lparr>chunkedUploads := (chunkedUploads st)(uid \<mapsto>
               \<lparr>filename = fname,
                totalChunks = parseInt_field totalChunksF,
                receivedChunks = 0,
                receivedChunksMap = {},
                fileSize = parseInt_field fileSizeF,
                mimeType = mimeTypeF,
                uploadChunksDir = path_join chunksDir uid,
                createdAt = dateNow e,
                chunkSize = (case chunkSizeF of None \<Rightarrow> 5 * 1024 * 1024
                             | Some c \<Rightarrow> if c = 0 then 5 * 1024 * 1024 else c)\<rparr>)\<rparr>))"

text \<open>
  \<^verbatim>\<open>fs.mkdirSync\<close> throws where the file system refuses the directory (an id with
  a NUL byte, a name that is too long, a path below a regular file); the handler
  answers that with status 500 as well and stores no session. \<open>upload_init_fs\<close> is
  the handler with the file system's answer as a parameter: \<open>mkdirs dir\<close> says
  whether \<open>dir\<close> exists or can be created.
\<close>

definition upload_init_fs ::
  "(path \<Rightarrow> bool) \<Rightarrow> env \<Rightarrow> string option \<Rightarrow> string option \<Rightarrow> string option \<Rightarrow>
   string option \<Rightarrow> string option \<Rightarrow> nat option \<Rightarrow> server \<Rightarrow> response \<times> server" where
  "upload_init_fs mkdirs e uploadId fname totalChunksF fileSizeF mimeTypeF chunkSizeF st =
     (case uploadId of
        None \<Rightarrow> (InitFailed, st)
      | Some uid \<Rightarrow>
          if \<not> mkdirs (path_join chunksDir uid) then (InitFailed, st)
          else
            (InitOk,
             st\<lparr>chunkedUploads := (chunkedUploads st)(uid \<mapsto>
                 \<lparr>filename = fname,
                  totalChunks = parseInt_field totalChunksF,
                  receivedChunks = 0,
                  receivedChunksMap = {},
                  fileSize = parseInt_field fileSizeF,
                  mimeType = mimeTypeF,
                  uploadChunksDir = path_join chunksDir uid,
                  createdAt = dateNow e,
                  chunkSize = (case chunkSizeF of None \<Rightarrow> 5 * 1024 * 1024
                               | Some c \<Rightarrow> if c = 0 then 5 * 1024 * 1024 else c)\<rparr>)\<rparr>))"

subsection \<open>POST /api/upload/chunk\<close>

text \<open>
  The checks in the order of the source: multer's limit of 15 MB, the session, the
  received set (tested with \<^verbatim>\<open>parseInt(chunkIndex)\<close>), the presence of the file, the
  empty file. Then the chunk is copied to \<^verbatim>\<open>path.join(uploadChunksDir, chunkIndex)\<close>,
  the raw string naming the file (a \<^verbatim>\<open>chunkIndex\<close> that is no string makes
  \<^verbatim>\<open>path.join\<close> throw: status 500), and on the write stream's \<^verbatim>\<open>finish\<close> the
  counter is incremented and the parsed index added to the set.

  \<open>upload_chunk\<close> is the request handled as a whole: no other request runs between
  its checks and its \<^verbatim>\<open>finish\<close> callback. The two halves are \<open>chunk_start\<close> and
  \<open>chunk_finish\<close> below; the source runs other requests between them, so that two
  overlapping requests for one index both pass the test of the received set.
\<close>

definition upload_chunk ::
  "string option \<Rightarrow> string option \<Rightarrow> bytes option \<Rightarrow> server \<Rightarrow> response \<times> server" where
  "upload_chunk uploadId chunkIndex file st =
     (if (case file of None \<Rightarrow> False | Some b \<Rightarrow> 15 * 1024 * 1024 < length b)
      then (ChunkTooLarge, st)
      else
        let chunkIndexNum = parseInt_field chunkIndex in
        case chunkedUploads st (prop_key uploadId) of
          None \<Rightarrow> (InvalidUploadId, st)
        | Some info \<Rightarrow>
            if chunkIndexNum \<in> receivedChunksMap info
            then (ChunkDuplicate (receivedChunks info) (totalChunks info), st)
            else
              (case file of
                 None \<Rightarrow> (NoChunkFile, st)
               | Some b \<Rightarrow>
                   if length b = 0 then (EmptyChunk, st)
                   else
                     (case chunkIndex of
                        None \<Rightarrow> (ChunkFailed, st)
                      | Some idx \<Rightarrow>
                          let chunkPath = path_join (uploadChunksDir info) idx;
                              info' = info\<lparr>receivedChunks := Suc (receivedChunks info),
                                           receivedChunksMap :=
                                             insert chunkIndexNum (receivedChunksMap info)\<rparr>
                          in (ChunkOk (receivedChunks info') (totalChunks info'),
                              st\<lparr>disk := (disk st)(chunkPath \<mapsto> b),
                                 chunkedUploads :=
                                   (chunkedUploads st)(prop_key uploadId \<mapsto> info')\<rparr>))))"

text \<open>
  The first half: the checks. It answers at once or starts the copy; \<open>Writing\<close> holds
  what the \<^verbatim>\<open>finish\<close> callback closes over (the key of the session, the chunk path,
  the bytes being copied and the parsed index).
\<close>

datatype chunk_started = Answered response | Writing string path bytes num

definition chunk_start ::
  "string option \<Rightarrow> string option \<Rightarrow> bytes option \<Rightarrow> server \<Rightarrow> chunk_started" where
  "chunk_start uploadId chunkIndex file st =
     (if (case file of None \<Rightarrow> False | Some b \<Rightarrow> 15 * 1024 * 1024 < length b)
      then Answered ChunkTooLarge
      else
        let chunkIndexNum = parseInt_field chunkIndex in
        case chunkedUploads st (prop_key uploadId) of
          None \<Rightarrow> Answered InvalidUploadId
        | Some info \<Rightarrow>
            if chunkIndexNum \<in> receivedChunksMap info
            then Answered (ChunkDuplicate (receivedChunks info) (totalChunks info))
            else
              (case file of
                 None \<Rightarrow> Answered NoChunkFile
               | Some b \<Rightarrow>
                   if length b = 0 then Answered EmptyChunk
                   else
                     (case chunkIndex of
                        None \<Rightarrow> Answered ChunkFailed
                      | Some idx \<Rightarrow>
                          Writing (prop_key uploadId) (path_join (uploadChunksDir info) idx) b
                            chunkIndexNum)))"

text \<open>
  The second half: the \<^verbatim>\<open>finish\<close> callback of the write stream. The file has its
  bytes, the counter is incremented and the parsed index added, with no test. The
  callback changes the session object that the first half read; the model changes the
  entry under the key. Where the entry has been deleted in between, the callback changes
  an object that the table no longer holds: the table stays, and the answer, built from
  that object, is not modelled. Where a new init has replaced the entry in between, the
  source likewise changes the replaced object and leaves the table as it is, while the
  model changes the new entry: the model has this run in addition, and the table of the
  source is the table of the model's run without the callback.
\<close>

definition chunk_finish ::
  "string \<Rightarrow> path \<Rightarrow> bytes \<Rightarrow> num \<Rightarrow> server \<Rightarrow> response \<times> server" where
  "chunk_finish key chunkPath b chunkIndexNum st =
     (case chunkedUploads st key of
        None \<Rightarrow> (NoResponse, st\<lparr>disk := (disk st)(chunkPath \<mapsto> b)\<rparr>)
      | Some info \<Rightarrow>
          let info' = info\<lparr>receivedChunks := Suc (receivedChunks info),
                           receivedChunksMap :=
                             insert chunkIndexNum (receivedChunksMap info)\<rparr>
          in (ChunkOk (receivedChunks info') (totalChunks info'),
              st\<lparr>disk := (disk st)(chunkPath \<mapsto> b),
                 chunkedUploads := (chunkedUploads st)(key \<mapsto> info')\<rparr>))"

subsection \<open>POST /api/upload/complete\<close>

text \<open>The test \<^verbatim>\<open>uploadInfo.receivedChunks !== uploadInfo.totalChunks\<close>, negated.\<close>

definition allChunksReceived :: "uploadInfo \<Rightarrow> bool" where
  "allChunksReceived info = (totalChunks info = Some (int (receivedChunks info)))"

text \<open>The number of rounds of \<^verbatim>\<open>for (let i = 0; i < totalChunks; i++)\<close>.\<close>

definition loop_bound :: "num \<Rightarrow> nat" where
  "loop_bound t = (case t of None \<Rightarrow> 0 | Some k \<Rightarrow> nat k)"

text \<open>
  \<^verbatim>\<open>combineChunks\<close>: the chunk named \<^verbatim>\<open>i.toString()\<close> is looked up and piped into
  the output, for \<open>i\<close> from 0. The accumulator is what has been piped so far; a missing
  chunk throws, and the bytes piped before stay in the output.
\<close>

function combineChunks ::
  "(path \<rightharpoonup> bytes) \<Rightarrow> path \<Rightarrow> nat \<Rightarrow> nat \<Rightarrow> bytes \<Rightarrow> (error \<times> bytes) + bytes" where
  "combineChunks d dir i n out =
     (if i < n then
        (case d (path_join dir (toString_nat i)) of
           None \<Rightarrow> Inl (MissingChunk i, out)
         | Some chunk \<Rightarrow> combineChunks d dir (Suc i) n (out @ chunk))
      else Inr out)"
  by pat_completeness auto
termination
  by (relation "measure (\<lambda>(d, dir, i, n, out). n - i)") auto

declare combineChunks.simps [simp del]

text \<open>
  The name of the artifact,
  \<^verbatim>\<open>`chunked-${Date.now()}-${code}${fileExt}${compressedExt}`\<close>; the suffix
  \<^verbatim>\<open>.gz\<close> follows the request's flag.
\<close>

definition chunked_filename :: "env \<Rightarrow> string \<Rightarrow> bool \<Rightarrow> string" where
  "chunked_filename e fname compressF =
     ''chunked-'' @ toString_nat (dateNow e) @ ''-'' @ toString_hex (randomBytes3 e)
     @ extname e fname @ (if compressF then ''.gz'' else [])"

text \<open>
  The handler. A session without filename makes \<^verbatim>\<open>path.extname\<close> throw before
  anything is written. The write stream then creates (truncates) the artifact. The
  request's flag is bound by \<^verbatim>\<open>const { uploadId, compress } = req.body\<close>; for a
  declared \<open>fileSize\<close> below 10 KiB the handler means to drop compression with
  \<^verbatim>\<open>compress = false\<close>, and this assignment to a constant throws a
  \<^verbatim>\<open>TypeError\<close>: the request is answered with status 500 and the flag is never
  changed. Otherwise the chunks are read and piped. On
  success the size is read back from the disk (\<^verbatim>\<open>fs.statSync\<close>), the record is
  pushed and the session deleted; the chunk directory is removed by a timer one second
  later (\<open>cleanup_chunks\<close>). On a missing chunk nothing is undone: the artifact
  keeps what was piped (through gzip, what the unended gzip stream has emitted), the
  session stays.
\<close>

definition upload_complete ::
  "env \<Rightarrow> string option \<Rightarrow> bool \<Rightarrow> server \<Rightarrow> response \<times> server" where
  "upload_complete e uploadId compressF st =
     (case chunkedUploads st (prop_key uploadId) of
        None \<Rightarrow> (InvalidUploadId, st)
      | Some info \<Rightarrow>
          if \<not> allChunksReceived info
          then (NotAllChunks (receivedChunks info) (totalChunks info), st)
          else
            (case filename info of
               None \<Rightarrow> (CompleteFailed TypeError, st)
             | Some fname \<Rightarrow>
                 let code = toString_hex (randomBytes3 e);
                     storedFilename = chunked_filename e fname compressF;
                     filePath = path_join uploadsDir storedFilename;
                     compress = compressF;
                     d0 = (disk st)(filePath \<mapsto> [])
                 in
                 if compressF \<and> num_lt (fileSize info) (10 * 1024)
                 then (CompleteFailed TypeError, st\<lparr>disk := d0\<rparr>)
                 else
                 (case combineChunks d0 (uploadChunksDir info) 0
                         (loop_bound (totalChunks info)) [] of
                    Inl (err, piped) \<Rightarrow>
                      (CompleteFailed err,
                       st\<lparr>disk := d0(filePath \<mapsto>
                            (if compress then gzip_unended e piped else piped))\<rparr>)
                  | Inr piped \<Rightarrow>
                      let artifact = (if compress then gzip e piped else piped);
                          finalSize = length artifact;
                          internalId = toString_nat (timestamp e) @ ''-'' @ uniqueId e;
                          record = \<lparr>rec_id = code,
                                    rec_internalId = internalId,
                                    rec_filename = fname,
                                    rec_storedFilename = storedFilename,
                                    rec_mimetype = (if compress then Some ''application/gzip''
                                                    else mimeType info),
                                    rec_originalMimetype =
                                      (if compress then mimeType info else None),
                                    rec_size = finalSize,
                                    rec_originalSize =
                                      (if compress then fileSize info else None),
                                    rec_compressed = compress,
                                    rec_uploadDate = isoDate e,
                                    rec_chunked = True\<rparr>
                      in (CompleteOk \<lparr>res_code = code,
                                      res_filename = fname,
                                      res_size = finalSize,
                                      res_originalSize =
                                        (if compress then fileSize info else None),
                                      res_compressed = compress,
                                      res_uploadTime = timestamp e\<rparr>,
                          st\<lparr>disk := d0(filePath \<mapsto> artifact),
                             db_files := db_files st @ [record],
                             chunkedUploads :=
                               (chunkedUploads st)(prop_key uploadId := None)\<rparr>))))"

text \<open>The timer set by a successful completion: \<^verbatim>\<open>fs.rmSync(dir, {recursive, force})\<close>.\<close>

definition cleanup_chunks :: "path \<Rightarrow> server \<Rightarrow> server" where
  "cleanup_chunks dir st =
     st\<lparr>disk := (\<lambda>p. if take (length dir) p = dir then None else disk st p)\<rparr>"

subsection \<open>POST /api/upload\<close>

text \<open>
  The single upload. Multer has stored the file under its generated name in the uploads
  directory before the handler runs. With compression the gzip output is written next to
  it under the suffix \<^verbatim>\<open>.gz\<close>; an empty output throws and the handler continues with
  the original; an output that is not smaller is unlinked; a smaller one replaces the
  original under the original's name. The variable \<^verbatim>\<open>finalSize\<close> is assigned the
  compressed size before the comparison and is not reset by the fallback.
\<close>

definition upload_file ::
  "env \<Rightarrow> reqFile option \<Rightarrow> string option \<Rightarrow> server \<Rightarrow> response \<times> server" where
  "upload_file e file optimized st =
     (case file of
        None \<Rightarrow> (NoFileUploaded, st)
      | Some f \<Rightarrow>
          if 100 * 1024 * 1024 < length (content f) then (FileTooLarge, st)
          else
            let origPath = path_join uploadsDir (multer_filename f);
                d1 = (disk st)(origPath \<mapsto> content f);
                fsize = length (content f);
                compress0 = (optimized = Some ''true'' \<and> \<not> fsize < 10 * 1024);
                compressedFilePath = path_join uploadsDir (multer_filename f @ ''.gz'');
                gz = gzip e (content f);
                measured = (compress0 \<and> length gz \<noteq> 0);
                compress = (measured \<and> length gz < fsize);
                finalSize = (if measured then length gz else fsize);
                d2 = (if \<not> compress0 then d1
                      else if \<not> measured then d1(compressedFilePath \<mapsto> gz)
                      else if \<not> compress then (d1(compressedFilePath \<mapsto> gz))(compressedFilePath := None)
                      else ((d1(compressedFilePath \<mapsto> gz))(origPath := None))
                             (compressedFilePath := None, origPath \<mapsto> gz));
                code = toString_hex (randomBytes3 e);
                record = \<lparr>rec_id = code,
                          rec_internalId = toString_nat (timestamp e) @ ''-'' @ uniqueId e,
                          rec_filename = originalname f,
                          rec_storedFilename = multer_filename f,
                          rec_mimetype = (if compress then Some ''application/gzip''
                                          else Some (file_mimetype f)),
                          rec_originalMimetype =
                            (if compress then Some (file_mimetype f) else None),
                          rec_size = finalSize,
                          rec_originalSize = (if compress then Some (int fsize) else None),
                          rec_compressed = compress,
                          rec_uploadDate = isoDate e,
                          rec_chunked = False\<rparr>
            in (UploadOk \<lparr>res_code = code,
                          res_filename = originalname f,
                          res_size = finalSize,
                          res_originalSize = (if compress then Some (int fsize) else None),
                          res_compressed = compress,
                          res_uploadTime = timestamp e\<rparr>,
                st\<lparr>disk := d2, db_files := db_files st @ [record]\<rparr>))"

subsection \<open>GET /api/download/:code and POST /api/group\<close>

text \<open>\<^verbatim>\<open>db.files.find(file => file.id === code)\<close>: the first record with the code.\<close>

definition findFile :: "string \<Rightarrow> fileRecord list \<Rightarrow> fileRecord option" where
  "findFile code fs = find (\<lambda>file. rec_id file = code) fs"



text \<open>The loop of the group handler that looks every file id up; the first absent id ends it.\<close>

fun verify_files :: "fileRecord list \<Rightarrow> string list \<Rightarrow> string + fileRecord list" where
  "verify_files fs [] = Inr []"
| "verify_files fs (fileId # ids) =
     (case findFile fileId fs of
        None \<Rightarrow> Inl fileId
      | Some fileInfo \<Rightarrow>
          (case verify_files fs ids of
             Inl missing \<Rightarrow> Inl missing
           | Inr files \<Rightarrow> Inr (fileInfo # files)))"

definition create_group ::
  "env \<Rightarrow> string list option \<Rightarrow> string option \<Rightarrow> server \<Rightarrow> response \<times> server" where
  "create_group e fileIds groupName st =
     (case fileIds of
        None \<Rightarrow> (NoFileIds, st)
      | Some ids \<Rightarrow>
          if ids = [] then (NoFileIds, st)
          else
            let groupCode = toString_hex (randomBytes3 e) in
            (case verify_files (db_files st) ids of
               Inl missing \<Rightarrow> (GroupFileNotFound missing, st)
             | Inr files \<Rightarrow>
                 let name = (case groupName of
                               None \<Rightarrow> ''File Group ('' @ toString_nat (length files) @ '' files)''
                             | Some g \<Rightarrow>
                                 if g = [] then ''File Group ('' @ toString_nat (length files) @ '' files)''
                                 else g);
                     group = \<lparr>grp_id = groupCode,
                              grp_name = name,
                              grp_fileIds = ids,
                              grp_createdAt = isoDate e,
                              grp_fileCount = length files\<rparr>
                 in (GroupOk groupCode name files,
                     st\<lparr>db_groups := db_groups st @ [group]\<rparr>)))"

section \<open>Request sequences\<close>

text \<open>
  The requests and the callbacks that change the state, and the server run on a list of
  them, one after the other. \<open>Chunk\<close> is a chunk request handled as a whole.
  \<open>ChunkFinish\<close> is the \<^verbatim>\<open>finish\<close> callback of a chunk request whose checks ran
  earlier, with other requests in between; its checks changed nothing, so they are no
  event of their own. A list may hold any such callback, also one that no request
  started, which only adds runs.
\<close>

datatype request =
    Init env "string option" "string option" "string option" "string option"
         "string option" "nat option"
  | Chunk "string option" "string option" "bytes option"
  | Complete env "string option" bool
  | Upload env "reqFile option" "string option"
  | Group env "string list option" "string option"
  | Cleanup path
  | ChunkFinish string path bytes num

fun respond :: "request \<Rightarrow> server \<Rightarrow> response \<times> server" where
  "respond (Init e uploadId fname totalF sizeF mimeF csizeF) st =
     upload_init e uploadId fname totalF sizeF mimeF csizeF st"
| "respond (Chunk uploadId chunkIndex file) st = upload_chunk uploadId chunkIndex file st"
| "respond (Complete e uploadId compressF) st = upload_complete e uploadId compressF st"
| "respond (Upload e file optimized) st = upload_file e file optimized st"
| "respond (Group e fileIds groupName) st = create_group e fileIds groupName st"
| "respond (Cleanup dir) st = (NoResponse, cleanup_chunks dir st)"
| "respond (ChunkFinish key chunkPath b chunkIndexNum) st =
     chunk_finish key chunkPath b chunkIndexNum st"

definition handle :: "request \<Rightarrow> server \<Rightarrow> server" where
  "handle r st = snd (respond r st)"

declare handle_def [simp]

fun run :: "request list \<Rightarrow> server \<Rightarrow> server" where
  "run [] st = st"
| "run (r # rs) st = run rs (handle r st)"

text \<open>The answers of the server to a list of requests, in order.\<close>

fun responses :: "request list \<Rightarrow> server \<Rightarrow> response list" where
  "responses [] st = []"
| "responses (r # rs) st = fst (respond r st) # responses rs (handle r st)"

text \<open>
  A client that sends the chunks of one file: chunk \<open>i\<close> carries \<open>payload i\<close> under the
  index string \<^verbatim>\<open>String(i)\<close>, in the order of the list (an index may be sent again).
\<close>

definition send_chunks :: "string \<Rightarrow> (nat \<Rightarrow> bytes) \<Rightarrow> nat list \<Rightarrow> request list" where
  "send_chunks uid payload order =
     map (\<lambda>i. Chunk (Some uid) (Some (toString_nat i)) (Some (payload i))) order"

text \<open>A string of decimal digits (what \<open>toString_nat\<close> produces).\<close>

definition dec_digit :: "char \<Rightarrow> bool" where
  "dec_digit c = (\<exists>d<10. c = digit_char d)"

text \<open>A request or timer that runs as a whole (no separate \<^verbatim>\<open>finish\<close> callback).\<close>

fun whole :: "request \<Rightarrow> bool" where
  "whole (ChunkFinish key chunkPath b chunkIndexNum) = False"
| "whole r = True"

text \<open>
  In every session the received set is finite and has at most as many elements as the
  counter says.
\<close>

definition counts_bound :: "server \<Rightarrow> bool" where
  "counts_bound st =
     (\<forall>uid info. chunkedUploads st uid = Some info \<longrightarrow>
        finite (receivedChunksMap info) \<and>
        card (receivedChunksMap info) \<le> receivedChunks info)"

text \<open>Every session's counter is the number of elements of its received set.\<close>

definition counts_agree :: "server \<Rightarrow> bool" where
  "counts_agree st =
     (\<forall>uid info. chunkedUploads st uid = Some info \<longrightarrow>
        finite (receivedChunksMap info) \<and>
        receivedChunks info = card (receivedChunksMap info))"

section \<open>Concrete runs\<close>

text \<open>
  A server that has just started (no session, nothing on the disk, an empty database)
  and an environment for the concrete runs below. Its \<open>extname\<close> answers \<^verbatim>\<open>.txt\<close>
  for every name; its \<open>gzip\<close> stands for a compressor that cannot shrink its input and
  stores it behind the two magic bytes of the gzip format.
\<close>

definition server0 :: server where
  "server0 = \<lparr>chunkedUploads = Map.empty, disk = Map.empty, db_files = [], db_groups = []\<rparr>"

definition sample_env :: env where
  "sample_env =
     \<lparr>dateNow = 1700000000000,
      randomBytes3 = (0x0a, 0xff, 0x10),
      timestamp = 1700000000001,
      uniqueId = ''k3x9qa'',
      isoDate = ''2023-11-14T22:13:20.001Z'',
      extname = (\<lambda>name. ''.txt''),
      gzip = (\<lambda>b. [0x1f, 0x8b] @ b),
      gzip_unended = (\<lambda>b. [0x1f, 0x8b])\<rparr>"



section \<open>The earlier chunked revision\<close>

text \<open>
  The file \<^verbatim>\<open>server.js\<close> is an earlier revision of the same three chunk handlers,
  without received set, compression and groups. Its session entry has no
  \<^verbatim>\<open>receivedChunksMap\<close>; its chunk handler renames multer's temporary file onto the
  chunk path and increments the counter, whatever the request; its complete handler
  reads every chunk with \<^verbatim>\<open>readFileSync\<close>, which throws where the file is absent,
  writes \<^verbatim>\<open>uploadInfo.fileSize\<close> into the record and the response, and removes the
  chunk directory at once.
\<close>

record legacy_uploadInfo =
  lg_filename :: "string option"
  lg_totalChunks :: num
  lg_receivedChunks :: nat
  lg_fileSize :: num
  lg_mimeType :: "string option"
  lg_uploadChunksDir :: path
  lg_createdAt :: nat

record legacy_fileRecord =
  lg_id :: string
  lg_rec_filename :: string
  lg_storedFilename :: string
  lg_mimetype :: "string option"
  lg_size :: num
  lg_uploadDate :: string

record legacy_server =
  lg_chunkedUploads :: "string \<rightharpoonup> legacy_uploadInfo"
  lg_disk :: "path \<rightharpoonup> bytes"
  lg_db_files :: "legacy_fileRecord list"

datatype legacy_response =
    LgInitOk
  | LgInitFailed
  | LgInvalidUploadId
  | LgChunkTooLarge
  | LgChunkOk nat num
  | LgChunkFailed
  | LgNotAllChunks nat num
  | LgCompleteFailed
  | LgCompleteOk string string num

definition legacy_upload_init ::
  "env \<Rightarrow> string option \<Rightarrow> string option \<Rightarrow> string option \<Rightarrow> string option \<Rightarrow>
   string option \<Rightarrow> legacy_server \<Rightarrow> legacy_response \<times> legacy_server" where
  "legacy_upload_init e uploadId fname totalChunksF fileSizeF mimeTypeF st =
     (case uploadId of
        None \<Rightarrow> (LgInitFailed, st)
      | Some uid \<Rightarrow>
          (LgInitOk,
           st\<lparr>lg_chunkedUploads := (lg_chunkedUploads st)(uid \<mapsto>
               \<lparr>lg_filename = fname,
                lg_totalChunks = parseInt_field totalChunksF,
                lg_receivedChunks = 0,
                lg_fileSize = parseInt_field fileSizeF,
                lg_mimeType = mimeTypeF,
                lg_uploadChunksDir = path_join chunksDir uid,
                lg_createdAt = dateNow e\<rparr>)\<rparr>))"

definition legacy_upload_chunk ::
  "string option \<Rightarrow> string option \<Rightarrow> bytes option \<Rightarrow> legacy_server \<Rightarrow>
   legacy_response \<times> legacy_server" where
  "legacy_upload_chunk uploadId chunkIndex file st =
     (if (case file of None \<Rightarrow> False | Some b \<Rightarrow> 10 * 1024 * 1024 < length b)
      then (LgChunkTooLarge, st)
      else
        case lg_chunkedUploads st (prop_key uploadId) of
          None \<Rightarrow> (LgInvalidUploadId, st)
        | Some info \<Rightarrow>
            (case chunkIndex of
               None \<Rightarrow> (LgChunkFailed, st)
             | Some idx \<Rightarrow>
                 (case file of
                    None \<Rightarrow> (LgChunkFailed, st)
                  | Some b \<Rightarrow>
                      let chunkPath = path_join (lg_uploadChunksDir info) idx;
                          info' = info\<lparr>lg_receivedChunks := Suc (lg_receivedChunks info)\<rparr>
                      in (LgChunkOk (lg_receivedChunks info') (lg_totalChunks info'),
                          st\<lparr>lg_disk := (lg_disk st)(chunkPath \<mapsto> b),
                             lg_chunkedUploads :=
                               (lg_chunkedUploads st)(prop_key uploadId \<mapsto> info')\<rparr>))))"

definition legacy_upload_complete ::
  "env \<Rightarrow> string option \<Rightarrow> legacy_server \<Rightarrow> legacy_response \<times> legacy_server" where
  "legacy_upload_complete e uploadId st =
     (case lg_chunkedUploads st (prop_key uploadId) of
        None \<Rightarrow> (LgInvalidUploadId, st)
      | Some info \<Rightarrow>
          if lg_totalChunks info \<noteq> Some (int (lg_receivedChunks info))
          then (LgNotAllChunks (lg_receivedChunks info) (lg_totalChunks info), st)
          else
            (case lg_filename info of
               None \<Rightarrow> (LgCompleteFailed, st)
             | Some fname \<Rightarrow>
                 let code = toString_hex (randomBytes3 e);
                     storedFilename = chunked_filename e fname False;
                     filePath = path_join uploadsDir storedFilename;
                     d0 = (lg_disk st)(filePath \<mapsto> [])
                 in
                 (case combineChunks d0 (lg_uploadChunksDir info) 0
                         (loop_bound (lg_totalChunks info)) [] of
                    Inl (err, piped) \<Rightarrow>
                      (LgCompleteFailed, st\<lparr>lg_disk := d0(filePath \<mapsto> piped)\<rparr>)
                  | Inr piped \<Rightarrow>
                      let dir = lg_uploadChunksDir info;
                          d1 = d0(filePath \<mapsto> piped)
                      in (LgCompleteOk code fname (lg_fileSize info),
                          st\<lparr>lg_disk :=
                               (\<lambda>p. if take (length dir) p = dir then None else d1 p),
                             lg_db_files := lg_db_files st @
                               [\<lparr>lg_id = code,
                                 lg_rec_filename = fname,
                                 lg_storedFilename = storedFilename,
                                 lg_mimetype = lg_mimeType info,
                                 lg_size = lg_fileSize info,
                                 lg_uploadDate = isoDate e\<rparr>],
                             lg_chunkedUploads :=
                               (lg_chunkedUploads st)(prop_key uploadId := None)\<rparr>))))"

definition legacy_server0 :: legacy_server where
  "legacy_server0 = \<lparr>lg_chunkedUploads = Map.empty, lg_disk = Map.empty, lg_db_files = []\<rparr>"

text \<open>The client of \<open>send_chunks\<close>, against the earlier revision.\<close>

fun legacy_send_chunks ::
  "string \<Rightarrow> (nat \<Rightarrow> bytes) \<Rightarrow> nat list \<Rightarrow> legacy_server \<Rightarrow> legacy_server" where
  "legacy_send_chunks uid payload [] st = st"
| "legacy_send_chunks uid payload (i # order) st =
     legacy_send_chunks uid payload order
       (snd (legacy_upload_chunk (Some uid) (Some (toString_nat i)) (Some (payload i)) st))"

section \<open>Facts about the runtime's numbers and strings\<close>

lemma digit_char_table:
  "\<forall>d\<in>set [0..<10]. digit_val (digit_char d) = Some d \<and> \<not> isWhite (digit_char d) \<and>
     digit_char d \<noteq> CHR ''-'' \<and> digit_char d \<noteq> CHR ''+'' \<and>
     digit_char d \<noteq> CHR ''x'' \<and> digit_char d \<noteq> CHR ''X'' \<and> digit_char d \<noteq> CHR ''c''"
  by code_simp

lemma digit_char_props:
  assumes "d < 10"
  shows "digit_val (digit_char d) = Some d" "\<not> isWhite (digit_char d)"
    "digit_char d \<noteq> CHR ''-''" "digit_char d \<noteq> CHR ''+''"
    "digit_char d \<noteq> CHR ''x''" "digit_char d \<noteq> CHR ''X''" "digit_char d \<noteq> CHR ''c''"
  using digit_char_table assms by simp_all

lemma dec_digit_char: "d < 10 \<Longrightarrow> dec_digit (digit_char d)"
  by (auto simp: dec_digit_def)

lemma dec_digit_props:
  assumes "dec_digit c"
  shows "isDigit 10 c" "\<not> isWhite c" "c \<noteq> CHR ''-''" "c \<noteq> CHR ''+''"
    "c \<noteq> CHR ''x''" "c \<noteq> CHR ''X''" "c \<noteq> CHR ''c''"
  using assms by (auto simp: dec_digit_def isDigit_def digit_char_props)

lemma toString_nat_digits: "c \<in> set (toString_nat n) \<Longrightarrow> dec_digit c"
proof (induction n arbitrary: c rule: toString_nat.induct)
  case (1 n)
  show ?case
  proof (cases "n < 10")
    case True
    with "1.prems" show ?thesis
      by (simp add: toString_nat.simps [of n] dec_digit_char)
  next
    case False
    with "1.prems" have "c \<in> set (toString_nat (n div 10)) \<or> c = digit_char (n mod 10)"
      by (auto simp add: toString_nat.simps [of n])
    then show ?thesis
      using "1.IH" False by (auto simp: dec_digit_char)
  qed
qed

lemma toString_nat_nonempty: "toString_nat n \<noteq> []"
  by (simp add: toString_nat.simps [of n])

lemma digits_value_snoc:
  "digits_value R (Z @ [c]) =
     digits_value R Z * R + (case digit_val c of None \<Rightarrow> 0 | Some v \<Rightarrow> v)"
  by (simp add: digits_value_def)

lemma digits_value_toString_nat: "digits_value 10 (toString_nat n) = n"
proof (induction n rule: toString_nat.induct)
  case (1 n)
  show ?case
  proof (cases "n < 10")
    case True
    then show ?thesis
      by (simp add: toString_nat.simps [of n] digits_value_def digit_char_props)
  next
    case False
    then show ?thesis
      using "1.IH" by (simp add: toString_nat.simps [of n] digits_value_snoc digit_char_props)
  qed
qed

text \<open>On a non-empty string of decimal digits \<open>parseInt\<close> reads the whole string.\<close>

lemma parseInt_dec:
  assumes ne: "s \<noteq> []" and dig: "\<forall>c\<in>set s. dec_digit c"
  shows "parseInt s = Some (int (digits_value 10 s))"
proof -
  obtain c r where s: "s = c # r" using ne by (cases s) auto
  have c: "dec_digit c" using dig s by simp
  have white: "dropWhile isWhite s = s"
    using c s by (simp add: dec_digit_props)
  have nohex: "take 2 s \<noteq> ''0x''" "take 2 s \<noteq> ''0X''"
  proof -
    show "take 2 s \<noteq> ''0x''"
    proof
      assume "take 2 s = ''0x''"
      then have "CHR ''x'' \<in> set (take 2 s)" by simp
      then have "CHR ''x'' \<in> set s" by (rule in_set_takeD)
      then show False using dig dec_digit_props(5) by blast
    qed
    show "take 2 s \<noteq> ''0X''"
    proof
      assume "take 2 s = ''0X''"
      then have "CHR ''X'' \<in> set (take 2 s)" by simp
      then have "CHR ''X'' \<in> set s" by (rule in_set_takeD)
      then show False using dig dec_digit_props(6) by blast
    qed
  qed
  have all: "takeWhile (isDigit 10) s = s"
    using dig by (simp add: takeWhile_eq_all_conv dec_digit_props)
  have hexF: "(take 2 s = ''0x'' \<or> take 2 s = ''0X'') = False"
    using nohex by simp
  have sign: "(case s of [] \<Rightarrow> 1 | c # r \<Rightarrow> if c = CHR ''-'' then - 1 else (1::int)) = 1"
    using c s by (simp add: dec_digit_props)
  have strip: "(case s of [] \<Rightarrow> [] | c # r \<Rightarrow> if c = CHR ''-'' \<or> c = CHR ''+'' then r else s) = s"
    using c s by (simp add: dec_digit_props)
  show ?thesis
    unfolding parseInt_def Let_def white sign strip hexF
    using ne by (simp add: all)
qed

lemma parseInt_toString_nat: "parseInt (toString_nat n) = Some (int n)"
  using parseInt_dec [of "toString_nat n"] toString_nat_digits [of _ n]
  by (simp add: toString_nat_nonempty digits_value_toString_nat)

lemma toString_nat_inj: "toString_nat i = toString_nat j \<Longrightarrow> i = j"
proof -
  assume "toString_nat i = toString_nat j"
  then have "parseInt (toString_nat i) = parseInt (toString_nat j)" by simp
  then show "i = j" by (simp add: parseInt_toString_nat)
qed

lemma chunk_path_inj:
  "path_join dir (toString_nat i) = path_join dir (toString_nat j) \<longleftrightarrow> i = j"
  by (auto simp: path_join_def dest: toString_nat_inj)

text \<open>A chunk file is never the artifact: no decimal string starts with the letter c.\<close>

lemma chunk_path_not_artifact:
  "path_join dir (toString_nat i) \<noteq> path_join uploadsDir (''chunked-'' @ rest)"
proof
  assume "path_join dir (toString_nat i) = path_join uploadsDir (''chunked-'' @ rest)"
  then have "toString_nat i = ''chunked-'' @ rest"
    by (simp add: path_join_def)
  then have "CHR ''c'' \<in> set (toString_nat i)" by simp
  then show False using toString_nat_digits dec_digit_props(7) by blast
qed

lemma chunk_path_not_chunked_filename:
  "path_join dir (toString_nat i) \<noteq> path_join uploadsDir (chunked_filename e fname c)"
  unfolding chunked_filename_def append_assoc by (rule chunk_path_not_artifact)

section \<open>The init handler\<close>

lemmas handler_defs =
  upload_init_def upload_chunk_def upload_complete_def server0_def sample_env_def
  parseInt_field_def prop_key_def path_join_def chunksDir_def uploadsDir_def Let_def
  allChunksReceived_def loop_bound_def num_lt_def

lemma parseInt_samples:
  "parseInt ''0'' = Some 0" "parseInt ''1'' = Some 1" "parseInt ''2'' = Some 2"
  "parseInt ''3'' = Some 3" "parseInt ''5'' = Some 5" "parseInt ''8'' = Some 8"
  "parseInt ''12'' = Some 12" "parseInt ''01'' = Some 1" "parseInt ''100'' = Some 100"
  "parseInt ''10240'' = Some 10240" "parseInt ''20480'' = Some 20480"
  by (simp_all add: parseInt_def isWhite_def isDigit_def digit_val_def digits_value_def)

lemma toString_nat_samples:
  "toString_nat 0 = ''0''" "toString_nat 1 = ''1''" "toString_nat 2 = ''2''"
  "toString_nat 3 = ''3''" "toString_nat (Suc 0) = ''1''"
  by (simp_all add: toString_nat.simps digit_char_def)

text \<open>
  Claim C10. An init whose uploadId already names an active session is answered like any
  other init and replaces the session: the new entry is built from the request alone
  (count 0, empty received set, the new filename, totalChunks and fileSize), whatever
  the old entry held. The disk is not touched, so the chunk files stored for the old
  session stay as they are; the database is not touched either.
\<close>

theorem init_replaces_session_keeps_chunks:
  assumes "chunkedUploads st uid = Some old"
  shows "\<exists>info.
           upload_init e (Some uid) fname totalF sizeF mimeF csizeF st =
             (InitOk, st\<lparr>chunkedUploads := (chunkedUploads st)(uid \<mapsto> info)\<rparr>) \<and>
           receivedChunks info = 0 \<and> receivedChunksMap info = {} \<and>
           filename info = fname \<and>
           totalChunks info = parseInt_field totalF \<and>
           fileSize info = parseInt_field sizeF \<and>
           mimeType info = mimeF \<and>
           uploadChunksDir info = path_join chunksDir uid \<and>
           createdAt info = dateNow e \<and>
           disk (snd (upload_init e (Some uid) fname totalF sizeF mimeF csizeF st)) = disk st \<and>
           db_files (snd (upload_init e (Some uid) fname totalF sizeF mimeF csizeF st)) =
             db_files st"
  unfolding upload_init_def by (simp, intro exI conjI, rule refl) simp_all

text \<open>
  The witness: a session for three chunks that has received chunk 0 is initialised again
  for two chunks under another filename; the stored chunk is still on the disk.
\<close>

theorem init_replaces_session_keeps_chunks_witness:
  "\<exists>old info.
     chunkedUploads
       (run [Init sample_env (Some ''u'') (Some ''a.txt'') (Some ''3'') (Some ''12'') None None,
             Chunk (Some ''u'') (Some ''0'') (Some [0x43])] server0) ''u'' = Some old \<and>
     receivedChunks old = 1 \<and> receivedChunksMap old = {Some 0} \<and>
     chunkedUploads
       (run [Init sample_env (Some ''u'') (Some ''a.txt'') (Some ''3'') (Some ''12'') None None,
             Chunk (Some ''u'') (Some ''0'') (Some [0x43]),
             Init sample_env (Some ''u'') (Some ''b.txt'') (Some ''2'') (Some ''8'') None None]
          server0) ''u'' = Some info \<and>
     receivedChunks info = 0 \<and> receivedChunksMap info = {} \<and>
     filename info = Some ''b.txt'' \<and> totalChunks info = Some 2 \<and> fileSize info = Some 8 \<and>
     disk
       (run [Init sample_env (Some ''u'') (Some ''a.txt'') (Some ''3'') (Some ''12'') None None,
             Chunk (Some ''u'') (Some ''0'') (Some [0x43]),
             Init sample_env (Some ''u'') (Some ''b.txt'') (Some ''2'') (Some ''8'') None None]
          server0) [''chunks'', ''u'', ''0''] = Some [0x43]"
proof -
  let ?st = "run [Init sample_env (Some ''u'') (Some ''a.txt'') (Some ''3'') (Some ''12'') None None,
                  Chunk (Some ''u'') (Some ''0'') (Some [0x43])] server0"
  have p0: "parseInt ''0'' = Some 0" "parseInt ''3'' = Some 3" "parseInt ''12'' = Some 12"
    "parseInt ''2'' = Some 2" "parseInt ''8'' = Some 8"
    by (simp_all add: parseInt_def isWhite_def isDigit_def digit_val_def digits_value_def)
  have old: "chunkedUploads ?st ''u'' =
      Some \<lparr>filename = Some ''a.txt'', totalChunks = Some 3, receivedChunks = 1,
            receivedChunksMap = {Some 0}, fileSize = Some 12, mimeType = None,
            uploadChunksDir = [''chunks'', ''u''], createdAt = 1700000000000,
            chunkSize = 5 * 1024 * 1024\<rparr>"
    by (simp add: upload_init_def upload_chunk_def server0_def sample_env_def p0
        parseInt_field_def prop_key_def path_join_def chunksDir_def Let_def)
  have dsk: "disk ?st [''chunks'', ''u'', ''0''] = Some [0x43]"
    by (simp add: upload_init_def upload_chunk_def server0_def sample_env_def p0
        parseInt_field_def prop_key_def path_join_def chunksDir_def Let_def)
  from init_replaces_session_keeps_chunks [OF old, of sample_env "Some ''b.txt''"
      "Some ''2''" "Some ''8''" None None]
  obtain info where
    r: "upload_init sample_env (Some ''u'') (Some ''b.txt'') (Some ''2'') (Some ''8'') None None ?st =
          (InitOk, ?st\<lparr>chunkedUploads := (chunkedUploads ?st)(''u'' \<mapsto> info)\<rparr>)"
    and i: "receivedChunks info = 0" "receivedChunksMap info = {}"
      "filename info = Some ''b.txt''" "totalChunks info = parseInt_field (Some ''2'')"
      "fileSize info = parseInt_field (Some ''8'')"
    by blast
  have run3: "run [Init sample_env (Some ''u'') (Some ''a.txt'') (Some ''3'') (Some ''12'') None None,
             Chunk (Some ''u'') (Some ''0'') (Some [0x43]),
             Init sample_env (Some ''u'') (Some ''b.txt'') (Some ''2'') (Some ''8'') None None]
          server0 = ?st\<lparr>chunkedUploads := (chunkedUploads ?st)(''u'' \<mapsto> info)\<rparr>"
    using r by simp
  show ?thesis
    unfolding run3 using old dsk i by (simp add: parseInt_field_def p0)
qed

text \<open>On a file system that provides every directory the two definitions agree.\<close>

lemma upload_init_fs_in_order:
  "upload_init_fs (\<lambda>dir. True) e uploadId fname totalF sizeF mimeF csizeF st =
   upload_init e uploadId fname totalF sizeF mimeF csizeF st"
  by (cases uploadId) (simp_all add: upload_init_fs_def upload_init_def)




section \<open>The chunk handler\<close>

text \<open>The request handled as a whole is its checks followed at once by its callback.\<close>

lemma upload_chunk_is_start_then_finish:
  "upload_chunk uploadId chunkIndex file st =
     (case chunk_start uploadId chunkIndex file st of
        Answered r \<Rightarrow> (r, st)
      | Writing key chunkPath b n \<Rightarrow> chunk_finish key chunkPath b n st)"
  by (simp add: upload_chunk_def chunk_start_def chunk_finish_def Let_def
      split: option.splits)

text \<open>
  The current revision keeps a received set. A chunk request for a session whose parsed
  index is already in the set leaves the whole server state (the session with its count
  and set, every chunk file, the database) as it was; it is answered with success and
  \<^verbatim>\<open>duplicate: true\<close>, reporting the unchanged count, unless multer refuses the
  body for its size (status 413) before the handler's own checks.
\<close>

lemma duplicate_chunk_is_acknowledged:
  assumes "chunkedUploads st (prop_key uploadId) = Some info"
    and "parseInt_field chunkIndex \<in> receivedChunksMap info"
  shows "upload_chunk uploadId chunkIndex file st =
           (if (case file of None \<Rightarrow> False | Some b \<Rightarrow> 15 * 1024 * 1024 < length b)
            then ChunkTooLarge
            else ChunkDuplicate (receivedChunks info) (totalChunks info), st)"
  using assms by (auto simp: upload_chunk_def split: option.splits)

text \<open>
  Chunk 0 of a session is sent twice, the second time with other bytes; the second
  request is acknowledged as a duplicate and the stored bytes are the first ones.
\<close>

lemma duplicate_chunk_sample:
  "upload_chunk (Some ''u'') (Some ''0'') (Some [0x44])
     (run [Init sample_env (Some ''u'') (Some ''a.txt'') (Some ''3'') (Some ''12'') None None,
           Chunk (Some ''u'') (Some ''0'') (Some [0x43])] server0) =
     (ChunkDuplicate 1 (Some 3),
      run [Init sample_env (Some ''u'') (Some ''a.txt'') (Some ''3'') (Some ''12'') None None,
           Chunk (Some ''u'') (Some ''0'') (Some [0x43])] server0) \<and>
   disk (run [Init sample_env (Some ''u'') (Some ''a.txt'') (Some ''3'') (Some ''12'') None None,
           Chunk (Some ''u'') (Some ''0'') (Some [0x43])] server0)
     [''chunks'', ''u'', ''0''] = Some [0x43]"
proof -
  let ?st = "run [Init sample_env (Some ''u'') (Some ''a.txt'') (Some ''3'') (Some ''12'') None None,
                  Chunk (Some ''u'') (Some ''0'') (Some [0x43])] server0"
  let ?info = "\<lparr>filename = Some ''a.txt'', totalChunks = Some 3, receivedChunks = 1,
            receivedChunksMap = {Some 0}, fileSize = Some 12, mimeType = None,
            uploadChunksDir = [''chunks'', ''u''], createdAt = 1700000000000,
            chunkSize = 5 * 1024 * 1024\<rparr>"
  have h1: "chunkedUploads ?st (prop_key (Some ''u'')) = Some ?info"
    by (simp add: handler_defs parseInt_samples)
  have h2: "parseInt_field (Some ''0'') \<in> receivedChunksMap ?info"
    by (simp add: parseInt_field_def parseInt_samples)
  have dsk: "disk ?st [''chunks'', ''u'', ''0''] = Some [0x43]"
    by (simp add: handler_defs parseInt_samples)
  from duplicate_chunk_is_acknowledged [OF h1 h2, of "Some [0x44]"]
  have "upload_chunk (Some ''u'') (Some ''0'') (Some [0x44]) ?st = (ChunkDuplicate 1 (Some 3), ?st)"
    by simp
  with dsk show ?thesis by blast
qed

section \<open>The loop that combines the chunks\<close>

lemma combineChunks_all:
  assumes "\<And>i. k \<le> i \<Longrightarrow> i < n \<Longrightarrow> d (path_join dir (toString_nat i)) = Some (p i)"
  shows "combineChunks d dir k n out = Inr (out @ concat (map p [k..<n]))"
  using assms
proof (induction d dir k n out rule: combineChunks.induct)
  case (1 d dir i n out)
  show ?case
  proof (cases "i < n")
    case True
    have here: "d (path_join dir (toString_nat i)) = Some (p i)"
      using "1.prems" True by simp
    have "combineChunks d dir (Suc i) n (out @ p i) =
            Inr ((out @ p i) @ concat (map p [Suc i..<n]))"
      using "1.IH" [OF True here] "1.prems" by simp
    then show ?thesis
      using True here by (simp add: combineChunks.simps [of d dir i] upt_conv_Cons)
  next
    case False
    then show ?thesis by (simp add: combineChunks.simps [of d dir i])
  qed
qed

text \<open>The loop stops at the first index whose file is absent and throws for that index.\<close>

lemma combineChunks_missing:
  assumes "k \<le> j" "j < n" "d (path_join dir (toString_nat j)) = None"
    and "\<And>m. k \<le> m \<Longrightarrow> m < j \<Longrightarrow> d (path_join dir (toString_nat m)) \<noteq> None"
  shows "\<exists>piped. combineChunks d dir k n out = Inl (MissingChunk j, piped)"
  using assms
proof (induction d dir k n out rule: combineChunks.induct)
  case (1 d dir i n out)
  have lt: "i < n" using "1.prems" by simp
  show ?case
  proof (cases "i = j")
    case True
    then show ?thesis
      using lt "1.prems"(3) by (simp add: combineChunks.simps [of d dir j])
  next
    case False
    then have ij: "i < j" using "1.prems"(1) by simp
    then obtain c where c: "d (path_join dir (toString_nat i)) = Some c"
      using "1.prems"(4) [of i] by auto
    have "\<exists>piped. combineChunks d dir (Suc i) n (out @ c) = Inl (MissingChunk j, piped)"
      using "1.IH" [OF lt c] ij "1.prems" by simp
    then show ?thesis
      using lt c by (simp add: combineChunks.simps [of d dir i])
  qed
qed

lemma first_missing:
  assumes "d (path_join dir (toString_nat i)) = None"
  shows "\<exists>j\<le>i. d (path_join dir (toString_nat j)) = None \<and>
           (\<forall>m<j. d (path_join dir (toString_nat m)) \<noteq> None)"
proof -
  let ?P = "\<lambda>j. d (path_join dir (toString_nat j)) = None"
  have "?P (LEAST j. ?P j)" using assms by (rule LeastI)
  moreover have "(LEAST j. ?P j) \<le> i" using assms by (rule Least_le)
  moreover have "\<forall>m<(LEAST j. ?P j). \<not> ?P m" using not_less_Least by blast
  ultimately show ?thesis by blast
qed

lemma combineChunks_one:
  "combineChunks d dir 0 (Suc 0) [] =
     (case d (path_join dir ''0'') of None \<Rightarrow> Inl (MissingChunk 0, []) | Some c \<Rightarrow> Inr c)"
  by (simp add: combineChunks.simps [of d dir 0] combineChunks.simps [of d dir "Suc 0"]
      toString_nat_samples split: option.splits)

section \<open>The complete handler\<close>

text \<open>
  Claim C4. A session whose count equals \<open>totalChunks = n\<close> passes the completeness
  test whatever the disk holds. If the chunk file of some index \<open>i < n\<close> is absent when
  the handler assembles (assembly starts: the session has a filename, and the request
  does not ask to compress a file declared below 10 KiB),
  \<^verbatim>\<open>combineChunks\<close> throws \<^verbatim>\<open>Chunk j is missing\<close> for the first absent index
  \<open>j\<close>, and the handler answers with status 500: no record is written and the session
  stays.
\<close>

theorem complete_fails_on_missing_chunk:
  assumes sess: "chunkedUploads st (prop_key uploadId) = Some info"
    and total: "totalChunks info = Some (int n)"
    and count: "receivedChunks info = n"
    and name: "filename info = Some fname"
    and starts: "\<not> (compressF \<and> num_lt (fileSize info) (10 * 1024))"
    and i: "i < n"
    and gone: "disk st (path_join (uploadChunksDir info) (toString_nat i)) = None"
  shows "\<exists>j\<le>i.
           fst (upload_complete e uploadId compressF st) = CompleteFailed (MissingChunk j) \<and>
           disk st (path_join (uploadChunksDir info) (toString_nat j)) = None \<and>
           (\<forall>m<j. disk st (path_join (uploadChunksDir info) (toString_nat m)) \<noteq> None) \<and>
           chunkedUploads (snd (upload_complete e uploadId compressF st)) = chunkedUploads st \<and>
           db_files (snd (upload_complete e uploadId compressF st)) = db_files st"
proof -
  let ?dir = "uploadChunksDir info"
  let ?d0 = "(disk st)(path_join uploadsDir (chunked_filename e fname compressF) \<mapsto> [])"
  have same: "?d0 (path_join ?dir (toString_nat m)) = disk st (path_join ?dir (toString_nat m))" for m
    using chunk_path_not_chunked_filename [of ?dir m] by simp
  obtain j where j: "j \<le> i" "disk st (path_join ?dir (toString_nat j)) = None"
    "\<forall>m<j. disk st (path_join ?dir (toString_nat m)) \<noteq> None"
    using first_missing [of "disk st" ?dir i] gone by blast
  have "\<exists>piped. combineChunks ?d0 ?dir 0 n [] = Inl (MissingChunk j, piped)"
    using j i by (intro combineChunks_missing) (simp_all only: same, simp_all)
  then obtain piped where c: "combineChunks ?d0 ?dir 0 n [] = Inl (MissingChunk j, piped)" ..
  have "fst (upload_complete e uploadId compressF st) = CompleteFailed (MissingChunk j) \<and>
        chunkedUploads (snd (upload_complete e uploadId compressF st)) = chunkedUploads st \<and>
        db_files (snd (upload_complete e uploadId compressF st)) = db_files st"
    using sess total count name c starts
    by (simp add: upload_complete_def allChunksReceived_def loop_bound_def Let_def)
  with j show ?thesis by blast
qed

text \<open>
  The witness: a session for two chunks receives the index strings \<^verbatim>\<open>0\<close> and
  \<^verbatim>\<open>01\<close>. Its count is 2, the file named \<^verbatim>\<open>1\<close> does not exist, and the
  complete handler fails on chunk 1.
\<close>

theorem complete_fails_on_missing_chunk_witness:
  "\<exists>st info.
     st = run [Init sample_env (Some ''u'') (Some ''a.txt'') (Some ''2'') (Some ''8'') None None,
               Chunk (Some ''u'') (Some ''0'') (Some [0x43]),
               Chunk (Some ''u'') (Some ''01'') (Some [0x41])] server0 \<and>
     chunkedUploads st (prop_key (Some ''u'')) = Some info \<and>
     totalChunks info = Some 2 \<and> receivedChunks info = 2 \<and>
     disk st (path_join (uploadChunksDir info) (toString_nat 1)) = None \<and>
     fst (upload_complete sample_env (Some ''u'') False st) = CompleteFailed (MissingChunk 1) \<and>
     chunkedUploads (snd (upload_complete sample_env (Some ''u'') False st)) = chunkedUploads st"
proof -
  let ?st = "run [Init sample_env (Some ''u'') (Some ''a.txt'') (Some ''2'') (Some ''8'') None None,
               Chunk (Some ''u'') (Some ''0'') (Some [0x43]),
               Chunk (Some ''u'') (Some ''01'') (Some [0x41])] server0"
  let ?info = "\<lparr>filename = Some ''a.txt'', totalChunks = Some 2, receivedChunks = 2,
            receivedChunksMap = {Some 0, Some 1}, fileSize = Some 8, mimeType = None,
            uploadChunksDir = [''chunks'', ''u''], createdAt = 1700000000000,
            chunkSize = 5 * 1024 * 1024\<rparr>"
  have h1: "chunkedUploads ?st (prop_key (Some ''u'')) = Some ?info"
    by (simp add: handler_defs parseInt_samples insert_commute)
  have h2: "totalChunks ?info = Some (int 2)" "receivedChunks ?info = 2"
    "filename ?info = Some ''a.txt''"
    "\<not> (False \<and> num_lt (fileSize ?info) (10 * 1024))" "(1::nat) < 2"
    by simp_all
  have h3: "disk ?st (path_join (uploadChunksDir ?info) (toString_nat 1)) = None"
    by (simp add: handler_defs parseInt_samples toString_nat_samples)
  have present: "disk ?st (path_join (uploadChunksDir ?info) (toString_nat 0)) \<noteq> None"
    by (simp add: handler_defs parseInt_samples toString_nat_samples)
  from complete_fails_on_missing_chunk [OF h1 h2 h3, of sample_env]
  obtain j where j: "j \<le> 1"
    "fst (upload_complete sample_env (Some ''u'') False ?st) = CompleteFailed (MissingChunk j)"
    "disk ?st (path_join (uploadChunksDir ?info) (toString_nat j)) = None"
    "chunkedUploads (snd (upload_complete sample_env (Some ''u'') False ?st)) = chunkedUploads ?st"
    by blast
  have "j = 1"
  proof (rule ccontr)
    assume "j \<noteq> 1"
    with j(1) have "j = 0" by simp
    with j(3) present show False by simp
  qed
  with j h1 h3 show ?thesis by simp
qed

text \<open>
  The size that the current revision reports. When its complete handler answers with
  success, the size in the response and the size in the pushed file record are both the
  length of the artifact that the disk holds under the record's stored filename
  (\<^verbatim>\<open>fs.statSync(filePath).size\<close>); the \<open>fileSize\<close> declared at init does not
  enter.
\<close>

lemma complete_reports_stored_size:
  assumes "upload_complete e uploadId compressF st = (CompleteOk body, st')"
  shows "\<exists>record artifact.
           db_files st' = db_files st @ [record] \<and>
           disk st' (path_join uploadsDir (rec_storedFilename record)) = Some artifact \<and>
           res_size body = length artifact \<and>
           rec_size record = length artifact"
  using assms
  by (auto simp: upload_complete_def Let_def split: option.splits if_splits sum.splits prod.splits)

text \<open>
  A session declared with \<open>fileSize = 100\<close> receives one chunk of two bytes; the
  completion reports and records the size 2.
\<close>

lemma complete_reports_stored_size_sample:
  "\<exists>body st' record.
     upload_complete sample_env (Some ''u'') False
       (run [Init sample_env (Some ''u'') (Some ''a.txt'') (Some ''1'') (Some ''100'') None None,
             Chunk (Some ''u'') (Some ''0'') (Some [0x41, 0x42])] server0) = (CompleteOk body, st') \<and>
     db_files st' = [record] \<and>
     disk st' (path_join uploadsDir (rec_storedFilename record)) = Some [0x41, 0x42] \<and>
     res_size body = 2 \<and> rec_size record = 2"
proof -
  define st where "st = run [Init sample_env (Some ''u'') (Some ''a.txt'') (Some ''1'') (Some ''100'') None None,
             Chunk (Some ''u'') (Some ''0'') (Some [0x41, 0x42])] server0"
  define st' where "st' = snd (upload_complete sample_env (Some ''u'') False st)"
  have c: "combineChunks d dir 0 (Suc 0) [] =
      (case d (path_join dir ''0'') of None \<Rightarrow> Inl (MissingChunk 0, []) | Some c \<Rightarrow> Inr c)" for d dir
    by (simp add: combineChunks.simps [of d dir 0] combineChunks.simps [of d dir "Suc 0"]
        toString_nat_samples split: option.splits)
  have "\<exists>body. fst (upload_complete sample_env (Some ''u'') False st) = CompleteOk body"
    unfolding st_def by (simp add: handler_defs parseInt_samples c)
  then obtain body where
    r: "upload_complete sample_env (Some ''u'') False st = (CompleteOk body, st')"
    unfolding st'_def by (auto simp: prod_eq_iff)
  have dsk: "disk st' (path_join uploadsDir (chunked_filename sample_env ''a.txt'' False)) =
      Some [0x41, 0x42]"
    unfolding st'_def st_def by (simp add: handler_defs parseInt_samples c)
  have nm: "map rec_storedFilename (db_files st') = [chunked_filename sample_env ''a.txt'' False]"
    unfolding st'_def st_def by (simp add: handler_defs parseInt_samples c)
  have e: "db_files st = []"
    unfolding st_def by (simp add: handler_defs parseInt_samples)
  from complete_reports_stored_size [OF r]
  obtain rcd artifact where
    x: "db_files st' = db_files st @ [rcd]"
      "disk st' (path_join uploadsDir (rec_storedFilename rcd)) = Some artifact"
      "res_size body = length artifact" "rec_size rcd = length artifact"
    by blast
  have "rec_storedFilename rcd = chunked_filename sample_env ''a.txt'' False"
    using nm x(1) e by simp
  with dsk x(2) have a: "artifact = [0x41, 0x42]" by simp
  have "upload_complete sample_env (Some ''u'') False st = (CompleteOk body, st') \<and>
     db_files st' = [rcd] \<and>
     disk st' (path_join uploadsDir (rec_storedFilename rcd)) = Some [0x41, 0x42] \<and>
     res_size body = 2 \<and> rec_size rcd = 2"
    using r x e a by simp
  then show ?thesis unfolding st_def by blast
qed

text \<open>
  The assignment to the constant: a complete request that asks for compression on a
  session that passes the completeness test and declares less than 10 KiB is answered
  with status 500, whatever the disk holds; the session stays and nothing is recorded.
\<close>

lemma complete_small_file_with_compress_throws:
  assumes "chunkedUploads st (prop_key uploadId) = Some info"
    and "allChunksReceived info"
    and "filename info = Some fname"
    and "num_lt (fileSize info) (10 * 1024)"
  shows "fst (upload_complete e uploadId True st) = CompleteFailed TypeError \<and>
         chunkedUploads (snd (upload_complete e uploadId True st)) = chunkedUploads st \<and>
         db_files (snd (upload_complete e uploadId True st)) = db_files st"
  using assms by (simp add: upload_complete_def Let_def)

section \<open>Sending the chunks of a file\<close>

text \<open>
  One chunk request of the client for index \<open>i\<close>, on a session whose received set is
  the set \<open>A\<close> of indices and whose chunk files hold the payloads of \<open>A\<close>: afterwards
  the same holds for \<open>insert i A\<close>. A repeated index changes nothing.
\<close>

lemma chunk_step:
  assumes sess: "chunkedUploads s uid = Some info"
    and rset: "receivedChunksMap info = (\<lambda>i. Some (int i)) ` A"
    and fin: "finite A"
    and cnt: "receivedChunks info = card A"
    and files: "\<And>j. j \<in> A \<Longrightarrow> disk s (path_join (uploadChunksDir info) (toString_nat j)) = Some (payload j)"
    and ok: "payload i \<noteq> []" "length (payload i) \<le> 15 * 1024 * 1024"
  shows "chunkedUploads (handle (Chunk (Some uid) (Some (toString_nat i)) (Some (payload i))) s) uid =
           Some (info\<lparr>receivedChunks := card (insert i A),
                      receivedChunksMap := (\<lambda>i. Some (int i)) ` insert i A\<rparr>)"
    and "\<And>j. j \<in> insert i A \<Longrightarrow>
           disk (handle (Chunk (Some uid) (Some (toString_nat i)) (Some (payload i))) s)
             (path_join (uploadChunksDir info) (toString_nat j)) = Some (payload j)"
    and "db_files (handle (Chunk (Some uid) (Some (toString_nat i)) (Some (payload i))) s) = db_files s"
proof -
  let ?s' = "handle (Chunk (Some uid) (Some (toString_nat i)) (Some (payload i))) s"
  have parsed: "parseInt_field (Some (toString_nat i)) = Some (int i)"
    by (simp add: parseInt_field_def parseInt_toString_nat)
  have mem: "Some (int i) \<in> (\<lambda>i. Some (int i)) ` A \<longleftrightarrow> i \<in> A"
    by auto
  show "chunkedUploads ?s' uid =
           Some (info\<lparr>receivedChunks := card (insert i A),
                      receivedChunksMap := (\<lambda>i. Some (int i)) ` insert i A\<rparr>)"
  proof (cases "i \<in> A")
    case True
    then have "insert i A = A" by auto
    then show ?thesis
      using sess rset cnt True ok
      by (simp add: upload_chunk_def parsed prop_key_def mem)
  next
    case False
    then show ?thesis
      using sess rset cnt fin ok
      by (simp add: upload_chunk_def parsed prop_key_def mem Let_def)
  qed
  show "disk ?s' (path_join (uploadChunksDir info) (toString_nat j)) = Some (payload j)"
    if "j \<in> insert i A" for j
  proof (cases "i \<in> A")
    case True
    then show ?thesis
      using sess rset that ok files [of j]
      by (auto simp add: upload_chunk_def parsed prop_key_def mem)
  next
    case False
    then show ?thesis
      using sess rset that ok files [of j]
      by (auto simp add: upload_chunk_def parsed prop_key_def mem Let_def chunk_path_inj)
  qed
  show "db_files ?s' = db_files s"
    using sess ok
    by (simp add: upload_chunk_def parsed prop_key_def Let_def)
qed

lemma send_chunks_run:
  assumes sess: "chunkedUploads s uid = Some info"
    and rset: "receivedChunksMap info = (\<lambda>i. Some (int i)) ` A"
    and fin: "finite A"
    and cnt: "receivedChunks info = card A"
    and files: "\<And>j. j \<in> A \<Longrightarrow> disk s (path_join (uploadChunksDir info) (toString_nat j)) = Some (payload j)"
    and ok: "\<And>i. i \<in> set order \<Longrightarrow> payload i \<noteq> [] \<and> length (payload i) \<le> 15 * 1024 * 1024"
  shows "chunkedUploads (run (send_chunks uid payload order) s) uid =
           Some (info\<lparr>receivedChunks := card (A \<union> set order),
                      receivedChunksMap := (\<lambda>i. Some (int i)) ` (A \<union> set order)\<rparr>) \<and>
         (\<forall>j. j \<in> A \<union> set order \<longrightarrow>
              disk (run (send_chunks uid payload order) s)
                (path_join (uploadChunksDir info) (toString_nat j)) = Some (payload j)) \<and>
         db_files (run (send_chunks uid payload order) s) = db_files s"
  using assms
proof (induction order arbitrary: s info A)
  case Nil
  then show ?case by (simp add: send_chunks_def)
next
  case (Cons i order)
  let ?s' = "handle (Chunk (Some uid) (Some (toString_nat i)) (Some (payload i))) s"
  let ?info' = "info\<lparr>receivedChunks := card (insert i A),
                      receivedChunksMap := (\<lambda>i. Some (int i)) ` insert i A\<rparr>"
  have oki: "payload i \<noteq> []" "length (payload i) \<le> 15 * 1024 * 1024"
    using Cons.prems(6) [of i] by simp_all
  note step = chunk_step [OF Cons.prems(1-4) Cons.prems(5) oki]
  have s1: "chunkedUploads ?s' uid = Some ?info'" by (rule step(1)) 
  have s2: "\<And>j. j \<in> insert i A \<Longrightarrow>
      disk ?s' (path_join (uploadChunksDir ?info') (toString_nat j)) = Some (payload j)"
    using step(2) by simp
  have ih: "chunkedUploads (run (send_chunks uid payload order) ?s') uid =
           Some (?info'\<lparr>receivedChunks := card (insert i A \<union> set order),
                      receivedChunksMap := (\<lambda>i. Some (int i)) ` (insert i A \<union> set order)\<rparr>) \<and>
         (\<forall>j. j \<in> insert i A \<union> set order \<longrightarrow>
              disk (run (send_chunks uid payload order) ?s')
                (path_join (uploadChunksDir ?info') (toString_nat j)) = Some (payload j)) \<and>
         db_files (run (send_chunks uid payload order) ?s') = db_files ?s'"
    using Cons.prems(3) Cons.prems(6)
    by (intro Cons.IH [OF s1 _ _ _ s2]) simp_all
  have run: "run (send_chunks uid payload (i # order)) s = run (send_chunks uid payload order) ?s'"
    by (simp add: send_chunks_def)
  show ?case
    unfolding run using ih step(3) by simp
qed

section \<open>Assembly in index order\<close>

text \<open>
  Claim C1. A client initialises a session for \<open>n\<close> chunks on any server state and
  sends the chunks, each non-empty and within multer's limit, chunk \<open>i\<close> under the
  index string \<^verbatim>\<open>String(i)\<close>, in any order that covers the indices \<open>0..n-1\<close>
  (an index may be repeated). Completing the session with compression disabled then
  succeeds, and the artifact on the disk is the concatenation of the payloads in
  ascending index order; the order of arrival does not enter the result.
\<close>

theorem chunks_assemble_in_index_order:
  assumes cover: "set order = {..<n}"
    and ok: "\<forall>i<n. payload i \<noteq> [] \<and> length (payload i) \<le> 15 * 1024 * 1024"
    and st1: "st1 = run (Init einit (Some uid) (Some fname) (Some (toString_nat n)) sizeF mimeF csizeF
                         # send_chunks uid payload order) st"
  shows "\<exists>body.
           fst (upload_complete e (Some uid) False st1) = CompleteOk body \<and>
           res_compressed body = False \<and>
           res_size body = length (concat (map payload [0..<n])) \<and>
           disk (snd (upload_complete e (Some uid) False st1))
             (path_join uploadsDir (chunked_filename e fname False)) =
             Some (concat (map payload [0..<n])) \<and>
           rec_storedFilename (last (db_files (snd (upload_complete e (Some uid) False st1)))) =
             chunked_filename e fname False"
proof -
  let ?s0 = "handle (Init einit (Some uid) (Some fname) (Some (toString_nat n)) sizeF mimeF csizeF) st"
  let ?info0 = "\<lparr>filename = Some fname, totalChunks = Some (int n), receivedChunks = 0,
      receivedChunksMap = {}, fileSize = parseInt_field sizeF, mimeType = mimeF,
      uploadChunksDir = path_join chunksDir uid, createdAt = dateNow einit,
      chunkSize = (case csizeF of None \<Rightarrow> 5 * 1024 * 1024
                   | Some c \<Rightarrow> if c = 0 then 5 * 1024 * 1024 else c)\<rparr>"
  let ?dir = "path_join chunksDir uid"
  have s0: "chunkedUploads ?s0 uid = Some ?info0"
    by (simp add: upload_init_def parseInt_field_def parseInt_toString_nat)
  have okm: "\<And>i. i \<in> set order \<Longrightarrow> payload i \<noteq> [] \<and> length (payload i) \<le> 15 * 1024 * 1024"
    using ok cover by simp
  have st1': "st1 = run (send_chunks uid payload order) ?s0"
    using st1 by simp
  from send_chunks_run [OF s0, of "{}" payload order] okm
  have sent: "chunkedUploads st1 uid =
      Some (?info0\<lparr>receivedChunks := card (set order),
                   receivedChunksMap := (\<lambda>i. Some (int i)) ` set order\<rparr>)"
    and files: "\<And>j. j < n \<Longrightarrow> disk st1 (path_join ?dir (toString_nat j)) = Some (payload j)"
    unfolding st1' using cover by simp_all
  let ?fp = "path_join uploadsDir (chunked_filename e fname False)"
  let ?d0 = "(disk st1)(?fp \<mapsto> [])"
  have same: "?d0 (path_join ?dir (toString_nat j)) = disk st1 (path_join ?dir (toString_nat j))" for j
    using chunk_path_not_chunked_filename [of ?dir j] by simp
  have comb: "combineChunks ?d0 ?dir 0 n [] = Inr ([] @ concat (map payload [0..<n]))"
    by (rule combineChunks_all) (simp only: same files)
  show ?thesis
    using sent comb cover
    by (simp add: upload_complete_def prop_key_def allChunksReceived_def loop_bound_def
        Let_def num_lt_def)
qed

text \<open>
  The witness: three chunks of four bytes arrive in the order 2, 0, 1; the artifact is
  chunk 0, chunk 1, chunk 2, twelve bytes.
\<close>

theorem chunks_assemble_in_index_order_witness:
  "\<exists>body.
     fst (upload_complete sample_env (Some ''u'') False
            (run (Init sample_env (Some ''u'') (Some ''a.txt'') (Some (toString_nat 3))
                    (Some ''12'') None None
                  # send_chunks ''u''
                      (\<lambda>i. if i = 0 then [0x43, 0x43, 0x43, 0x43]
                           else if i = 1 then [0x41, 0x41, 0x41, 0x41]
                           else [0x42, 0x42, 0x42, 0x42]) [2, 0, 1]) server0)) = CompleteOk body \<and>
     res_size body = 12 \<and>
     disk (snd (upload_complete sample_env (Some ''u'') False
            (run (Init sample_env (Some ''u'') (Some ''a.txt'') (Some (toString_nat 3))
                    (Some ''12'') None None
                  # send_chunks ''u''
                      (\<lambda>i. if i = 0 then [0x43, 0x43, 0x43, 0x43]
                           else if i = 1 then [0x41, 0x41, 0x41, 0x41]
                           else [0x42, 0x42, 0x42, 0x42]) [2, 0, 1]) server0)))
       (path_join uploadsDir (chunked_filename sample_env ''a.txt'' False)) =
       Some [0x43, 0x43, 0x43, 0x43, 0x41, 0x41, 0x41, 0x41, 0x42, 0x42, 0x42, 0x42] \<and>
     toString_nat 3 = ''3''"
proof -
  let ?p = "\<lambda>i::nat. if i = 0 then [0x43, 0x43, 0x43, 0x43 :: byte]
                           else if i = 1 then [0x41, 0x41, 0x41, 0x41]
                           else [0x42, 0x42, 0x42, 0x42]"
  have cover: "set [2, 0, 1] = {..<3::nat}" by auto
  have ok: "\<forall>i<3. ?p i \<noteq> [] \<and> length (?p i) \<le> 15 * 1024 * 1024" by simp
  have cat: "concat (map ?p [0..<3]) =
      [0x43, 0x43, 0x43, 0x43, 0x41, 0x41, 0x41, 0x41, 0x42, 0x42, 0x42, 0x42]"
    by (simp add: upt_rec)
  have three: "toString_nat 3 = ''3''"
    by (simp add: toString_nat.simps digit_char_def)
  from chunks_assemble_in_index_order [OF cover ok refl, where einit = sample_env and uid = "''u''" and fname = "''a.txt''"
        and sizeF = "Some ''12''" and mimeF = None and csizeF = None and st = server0
        and e = sample_env]
  show ?thesis unfolding cat using three by auto
qed

section \<open>Parsed index against raw index string\<close>

text \<open>
  The chunk handler tests and extends the received set with \<^verbatim>\<open>parseInt(chunkIndex)\<close>
  but names the chunk file with the string \<^verbatim>\<open>chunkIndex\<close> itself, while the complete
  handler opens the file named \<^verbatim>\<open>i.toString()\<close>.
\<close>

lemma combineChunks_two:
  "combineChunks d dir 0 2 [] =
     (case d (path_join dir ''0'') of
        None \<Rightarrow> Inl (MissingChunk 0, [])
      | Some a \<Rightarrow>
          (case d (path_join dir ''1'') of
             None \<Rightarrow> Inl (MissingChunk 1, a)
           | Some b \<Rightarrow> Inr (a @ b)))"
  by (simp add: combineChunks.simps [of d dir 0] combineChunks.simps [of d dir "Suc 0"]
      combineChunks.simps [of d dir "Suc (Suc 0)"] combineChunks.simps [of d dir 2]
      toString_nat_samples numeral_2_eq_2 split: option.splits)

lemma stuck_complete:
  assumes "chunkedUploads s ''u'' = Some info"
    and "totalChunks info = Some 2" "receivedChunks info = 2" "filename info = Some fname"
    and "fileSize info = Some 20480"
    and "uploadChunksDir info = [''chunks'', ''u'']"
    and "disk s [''chunks'', ''u'', ''0''] = Some a"
    and "disk s [''chunks'', ''u'', ''1''] = None"
  shows "fst (upload_complete e (Some ''u'') c s) = CompleteFailed (MissingChunk 1)"
    and "chunkedUploads (snd (upload_complete e (Some ''u'') c s)) = chunkedUploads s"
    and "disk (snd (upload_complete e (Some ''u'') c s)) [''chunks'', ''u'', ''0''] = Some a"
    and "disk (snd (upload_complete e (Some ''u'') c s)) [''chunks'', ''u'', ''1''] = None"
  using assms
  by (simp_all add: upload_complete_def prop_key_def allChunksReceived_def loop_bound_def
      Let_def combineChunks_two path_join_def uploadsDir_def num_lt_def)

lemma stuck_forever:
  assumes "chunkedUploads s ''u'' = Some info"
    and "totalChunks info = Some 2" "receivedChunks info = 2" "filename info = Some fname"
    and "fileSize info = Some 20480"
    and "uploadChunksDir info = [''chunks'', ''u'']"
    and "disk s [''chunks'', ''u'', ''0''] = Some a"
    and "disk s [''chunks'', ''u'', ''1''] = None"
  shows "set (responses (map (\<lambda>(e, c). Complete e (Some ''u'') c) ps) s)
           \<subseteq> {CompleteFailed (MissingChunk 1)}"
  using assms
proof (induction ps arbitrary: s)
  case Nil
  then show ?case by simp
next
  case (Cons p ps)
  obtain e c where p: "p = (e, c)" by (cases p)
  let ?s' = "snd (upload_complete e (Some ''u'') c s)"
  note st = stuck_complete [OF Cons.prems, of e c]
  have "set (responses (map (\<lambda>(e, c). Complete e (Some ''u'') c) ps) ?s')
           \<subseteq> {CompleteFailed (MissingChunk 1)}"
    using Cons.prems st by (intro Cons.IH) simp_all
  then show ?case using st(1) p by simp
qed

text \<open>
  Claim C8. A session for two chunks of 10 KiB each receives the index strings \<^verbatim>\<open>0\<close> and
  \<^verbatim>\<open>01\<close>; the string \<^verbatim>\<open>1\<close> is never sent. Both are counted (the set holds 0
  and 1, the count is 2 and equals \<open>totalChunks\<close>), the second file is stored under
  the name \<^verbatim>\<open>01\<close>, and no file named \<^verbatim>\<open>1\<close> exists. Every complete call that
  follows, whatever its compression flag and environment, fails on the missing chunk 1.
\<close>

theorem parsed_index_counts_raw_index_names:
  "\<exists>info.
     chunkedUploads
       (run [Init sample_env (Some ''u'') (Some ''a.txt'') (Some ''2'') (Some ''20480'') None None,
             Chunk (Some ''u'') (Some ''0'') (Some (replicate 10240 0x43)),
             Chunk (Some ''u'') (Some ''01'') (Some (replicate 10240 0x41))] server0) ''u'' = Some info \<and>
     receivedChunks info = 2 \<and> totalChunks info = Some 2 \<and>
     receivedChunksMap info = {Some 0, Some 1} \<and>
     allChunksReceived info \<and>
     disk
       (run [Init sample_env (Some ''u'') (Some ''a.txt'') (Some ''2'') (Some ''20480'') None None,
             Chunk (Some ''u'') (Some ''0'') (Some (replicate 10240 0x43)),
             Chunk (Some ''u'') (Some ''01'') (Some (replicate 10240 0x41))] server0)
       [''chunks'', ''u'', ''01''] = Some (replicate 10240 0x41) \<and>
     disk
       (run [Init sample_env (Some ''u'') (Some ''a.txt'') (Some ''2'') (Some ''20480'') None None,
             Chunk (Some ''u'') (Some ''0'') (Some (replicate 10240 0x43)),
             Chunk (Some ''u'') (Some ''01'') (Some (replicate 10240 0x41))] server0)
       [''chunks'', ''u'', ''1''] = None \<and>
     (\<forall>ps. set (responses (map (\<lambda>(e, c). Complete e (Some ''u'') c) ps)
        (run [Init sample_env (Some ''u'') (Some ''a.txt'') (Some ''2'') (Some ''20480'') None None,
              Chunk (Some ''u'') (Some ''0'') (Some (replicate 10240 0x43)),
              Chunk (Some ''u'') (Some ''01'') (Some (replicate 10240 0x41))] server0))
           \<subseteq> {CompleteFailed (MissingChunk 1)})"
proof -
  define st where "st = run [Init sample_env (Some ''u'') (Some ''a.txt'') (Some ''2'') (Some ''20480'') None None,
             Chunk (Some ''u'') (Some ''0'') (Some (replicate 10240 0x43)),
             Chunk (Some ''u'') (Some ''01'') (Some (replicate 10240 0x41))] server0"
  let ?info = "\<lparr>filename = Some ''a.txt'', totalChunks = Some 2, receivedChunks = 2,
            receivedChunksMap = {Some 0, Some 1}, fileSize = Some 20480, mimeType = None,
            uploadChunksDir = [''chunks'', ''u''], createdAt = 1700000000000,
            chunkSize = 5 * 1024 * 1024\<rparr>"
  have h1: "chunkedUploads st ''u'' = Some ?info"
    unfolding st_def by (simp add: handler_defs parseInt_samples insert_commute)
  have d0: "disk st [''chunks'', ''u'', ''0''] = Some (replicate 10240 0x43)"
    and d01: "disk st [''chunks'', ''u'', ''01''] = Some (replicate 10240 0x41)"
    and d1: "disk st [''chunks'', ''u'', ''1''] = None"
    unfolding st_def by (simp_all add: handler_defs parseInt_samples)
  have "set (responses (map (\<lambda>(e, c). Complete e (Some ''u'') c) ps) st)
           \<subseteq> {CompleteFailed (MissingChunk 1)}" for ps
    by (rule stuck_forever [OF h1 _ _ _ _ _ d0 d1]) simp_all
  then show ?thesis
    using h1 d01 d1 unfolding st_def [symmetric] by (simp add: allChunksReceived_def)
qed

section \<open>Share codes\<close>


















section \<open>The completeness test\<close>

text \<open>
  The \<^verbatim>\<open>finish\<close> callback increments the counter and adds the parsed index, so on
  every run the received set is finite and no larger than the counter.
\<close>

lemma counts_bound_init:
  "counts_bound st \<Longrightarrow>
   counts_bound (snd (upload_init e uploadId fname totalF sizeF mimeF csizeF st))"
  by (auto simp: counts_bound_def upload_init_def split: option.splits)

lemma counts_bound_finish:
  "counts_bound st \<Longrightarrow> counts_bound (snd (chunk_finish key chunkPath b n st))"
  by (auto simp: counts_bound_def chunk_finish_def Let_def card_insert_if
      split: option.splits if_splits intro: le_SucI)

lemma counts_bound_chunk:
  "counts_bound st \<Longrightarrow> counts_bound (snd (upload_chunk uploadId chunkIndex file st))"
  by (auto simp: counts_bound_def upload_chunk_def Let_def split: option.splits if_splits)

lemma counts_bound_complete:
  "counts_bound st \<Longrightarrow> counts_bound (snd (upload_complete e uploadId compressF st))"
  by (auto simp: counts_bound_def upload_complete_def Let_def
      split: option.splits if_splits sum.splits prod.splits)

lemma counts_bound_upload:
  "counts_bound st \<Longrightarrow> counts_bound (snd (upload_file e file optimized st))"
  by (auto simp: counts_bound_def upload_file_def Let_def split: option.splits if_splits)

lemma counts_bound_group:
  "counts_bound st \<Longrightarrow> counts_bound (snd (create_group e fileIds groupName st))"
  by (auto simp: counts_bound_def create_group_def Let_def split: option.splits if_splits sum.splits)

lemma counts_bound_handle: "counts_bound st \<Longrightarrow> counts_bound (handle r st)"
proof (cases r)
  case (Cleanup dir)
  assume "counts_bound st"
  then show ?thesis using Cleanup by (simp add: counts_bound_def cleanup_chunks_def)
qed (simp_all add: counts_bound_init counts_bound_chunk counts_bound_complete
      counts_bound_upload counts_bound_group counts_bound_finish)

lemma counts_bound_run: "counts_bound st \<Longrightarrow> counts_bound (run rs st)"
  by (induction rs arbitrary: st) (simp_all add: counts_bound_handle del: handle_def)

text \<open>
  A chunk request handled as a whole increments the counter exactly when a new element
  enters the received set, so on a run of whole requests the two agree.
\<close>

lemma counts_agree_init:
  "counts_agree st \<Longrightarrow>
   counts_agree (snd (upload_init e uploadId fname totalF sizeF mimeF csizeF st))"
  by (auto simp: counts_agree_def upload_init_def split: option.splits)

lemma counts_agree_chunk:
  "counts_agree st \<Longrightarrow> counts_agree (snd (upload_chunk uploadId chunkIndex file st))"
  by (auto simp: counts_agree_def upload_chunk_def Let_def split: option.splits if_splits)

lemma counts_agree_complete:
  "counts_agree st \<Longrightarrow> counts_agree (snd (upload_complete e uploadId compressF st))"
  by (auto simp: counts_agree_def upload_complete_def Let_def
      split: option.splits if_splits sum.splits prod.splits)

lemma counts_agree_upload:
  "counts_agree st \<Longrightarrow> counts_agree (snd (upload_file e file optimized st))"
  by (auto simp: counts_agree_def upload_file_def Let_def split: option.splits if_splits)

lemma counts_agree_group:
  "counts_agree st \<Longrightarrow> counts_agree (snd (create_group e fileIds groupName st))"
  by (auto simp: counts_agree_def create_group_def Let_def split: option.splits if_splits sum.splits)

lemma counts_agree_handle:
  assumes "counts_agree st" and "whole r"
  shows "counts_agree (handle r st)"
proof (cases r)
  case (Cleanup dir)
  then show ?thesis using assms by (simp add: counts_agree_def cleanup_chunks_def)
next
  case (ChunkFinish key chunkPath b n)
  then show ?thesis using assms by simp
qed (use assms in \<open>simp_all add: counts_agree_init counts_agree_chunk counts_agree_complete
      counts_agree_upload counts_agree_group\<close>)

lemma counts_agree_run:
  "counts_agree st \<Longrightarrow> list_all whole rs \<Longrightarrow> counts_agree (run rs st)"
  by (induction rs arbitrary: st) (simp_all add: counts_agree_handle del: handle_def)

text \<open>
  Claim C2, as amended. The test of the complete handler compares the counter
  \<open>receivedChunks\<close> with \<open>totalChunks\<close>; no handler compares an index with
  \<open>totalChunks\<close>. On every run of a server that started without sessions the received
  set of a session is finite and has at most \<open>receivedChunks\<close> elements. On a run whose
  requests are handled one after the other (no chunk request is checked while the write
  of another is in progress) the counter is the number of distinct accepted parsed
  indices, whatever the order of arrival, so the test holds if and only if that number
  equals \<open>totalChunks\<close>; and if, on such a run, every accepted index lies in
  \<open>[0, totalChunks)\<close>, the test holds if and only if every index of that range has been
  accepted.
\<close>

theorem completeness_test_counts_distinct_indices:
  assumes fresh: "chunkedUploads st0 = Map.empty"
    and sess: "chunkedUploads (run rs st0) uid = Some info"
  shows "(allChunksReceived info \<longleftrightarrow> totalChunks info = Some (int (receivedChunks info))) \<and>
         finite (receivedChunksMap info) \<and>
         card (receivedChunksMap info) \<le> receivedChunks info \<and>
         (list_all whole rs \<longrightarrow>
            receivedChunks info = card (receivedChunksMap info) \<and>
            (allChunksReceived info \<longleftrightarrow>
               totalChunks info = Some (int (card (receivedChunksMap info)))) \<and>
            (\<forall>n. totalChunks info = Some (int n) \<and>
                 receivedChunksMap info \<subseteq> (\<lambda>i. Some (int i)) ` {..<n} \<longrightarrow>
                 (allChunksReceived info \<longleftrightarrow>
                    (\<forall>i<n. Some (int i) \<in> receivedChunksMap info))))"
proof -
  have "counts_bound st0" using fresh by (simp add: counts_bound_def)
  then have "counts_bound (run rs st0)" by (rule counts_bound_run)
  with sess have fin: "finite (receivedChunksMap info)"
    and le: "card (receivedChunksMap info) \<le> receivedChunks info"
    by (auto simp: counts_bound_def)
  have test: "allChunksReceived info \<longleftrightarrow> totalChunks info = Some (int (receivedChunks info))"
    by (simp add: allChunksReceived_def)
  have seq: "receivedChunks info = card (receivedChunksMap info) \<and>
            (allChunksReceived info \<longleftrightarrow>
               totalChunks info = Some (int (card (receivedChunksMap info)))) \<and>
            (\<forall>n. totalChunks info = Some (int n) \<and>
                 receivedChunksMap info \<subseteq> (\<lambda>i. Some (int i)) ` {..<n} \<longrightarrow>
                 (allChunksReceived info \<longleftrightarrow>
                    (\<forall>i<n. Some (int i) \<in> receivedChunksMap info)))"
    if whole: "list_all whole rs"
  proof -
    have "counts_agree st0" using fresh by (simp add: counts_agree_def)
    then have "counts_agree (run rs st0)" using whole by (rule counts_agree_run)
    with sess have cnt: "receivedChunks info = card (receivedChunksMap info)"
      by (auto simp: counts_agree_def)
    have first: "allChunksReceived info \<longleftrightarrow>
        totalChunks info = Some (int (card (receivedChunksMap info)))"
      by (simp add: allChunksReceived_def cnt)
    have second: "allChunksReceived info \<longleftrightarrow> (\<forall>i<n. Some (int i) \<in> receivedChunksMap info)"
      if total: "totalChunks info = Some (int n)"
        and range: "receivedChunksMap info \<subseteq> (\<lambda>i. Some (int i)) ` {..<n}" for n
    proof -
      let ?f = "\<lambda>i::nat. Some (int i)"
      have inj: "inj_on ?f {..<n}" by (simp add: inj_on_def)
      have cardn: "card (?f ` {..<n}) = n" using inj by (simp add: card_image)
      have "allChunksReceived info \<longleftrightarrow> card (receivedChunksMap info) = n"
        using total by (auto simp add: allChunksReceived_def cnt)
      also have "\<dots> \<longleftrightarrow> receivedChunksMap info = ?f ` {..<n}"
      proof
        assume "card (receivedChunksMap info) = n"
        then show "receivedChunksMap info = ?f ` {..<n}"
          using range cardn by (intro card_subset_eq) simp_all
      next
        assume "receivedChunksMap info = ?f ` {..<n}"
        then show "card (receivedChunksMap info) = n" using cardn by simp
      qed
      also have "\<dots> \<longleftrightarrow> (\<forall>i<n. ?f i \<in> receivedChunksMap info)"
        using range by auto
      finally show ?thesis .
    qed
    from cnt first second show ?thesis by blast
  qed
  from test fin le seq show ?thesis by blast
qed

text \<open>
  The witness: a session for two chunks that accepted the indices 1 and 0, each request
  handled as a whole, passes the test; its received set has two elements, all of the
  range, and holds both indices.
\<close>

theorem completeness_test_counts_distinct_indices_witness:
  "chunkedUploads server0 = Map.empty \<and>
   list_all whole
     [Init sample_env (Some ''u'') (Some ''a.txt'') (Some ''2'') (Some ''8'') None None,
      Chunk (Some ''u'') (Some ''1'') (Some [0x43]),
      Chunk (Some ''u'') (Some ''0'') (Some [0x41])] \<and>
   (\<exists>info.
      chunkedUploads
        (run [Init sample_env (Some ''u'') (Some ''a.txt'') (Some ''2'') (Some ''8'') None None,
              Chunk (Some ''u'') (Some ''1'') (Some [0x43]),
              Chunk (Some ''u'') (Some ''0'') (Some [0x41])] server0) ''u'' = Some info \<and>
      receivedChunksMap info = {Some 0, Some 1} \<and>
      totalChunks info = Some (int 2) \<and>
      receivedChunksMap info \<subseteq> (\<lambda>i. Some (int i)) ` {..<2} \<and>
      receivedChunks info = card (receivedChunksMap info) \<and>
      allChunksReceived info \<and>
      Some 0 \<in> receivedChunksMap info \<and> Some 1 \<in> receivedChunksMap info)"
proof -
  let ?rs = "[Init sample_env (Some ''u'') (Some ''a.txt'') (Some ''2'') (Some ''8'') None None,
              Chunk (Some ''u'') (Some ''1'') (Some [0x43]),
              Chunk (Some ''u'') (Some ''0'') (Some [0x41])]"
  let ?info = "\<lparr>filename = Some ''a.txt'', totalChunks = Some 2, receivedChunks = 2,
            receivedChunksMap = {Some 0, Some 1}, fileSize = Some 8, mimeType = None,
            uploadChunksDir = [''chunks'', ''u''], createdAt = 1700000000000,
            chunkSize = 5 * 1024 * 1024\<rparr>"
  have fresh: "chunkedUploads server0 = Map.empty" by (simp add: server0_def)
  have whole: "list_all whole ?rs" by simp
  have sess: "chunkedUploads (run ?rs server0) ''u'' = Some ?info"
    by (simp add: handler_defs parseInt_samples insert_commute)
  have total: "totalChunks ?info = Some (int 2)" by simp
  have range: "receivedChunksMap ?info \<subseteq> (\<lambda>i. Some (int i)) ` {..<2}"
  proof -
    have "(0::nat) \<in> {..<2}" "(1::nat) \<in> {..<2}" by simp_all
    then have "Some (int 0) \<in> (\<lambda>i. Some (int i)) ` {..<2::nat}"
      "Some (int 1) \<in> (\<lambda>i. Some (int i)) ` {..<2::nat}"
      by blast+
    then show ?thesis by simp
  qed
  note t = completeness_test_counts_distinct_indices [OF fresh sess]
  from t whole have cnt: "receivedChunks ?info = card (receivedChunksMap ?info)" by blast
  from t whole total range
  have "allChunksReceived ?info \<longleftrightarrow> (\<forall>i<2. Some (int i) \<in> receivedChunksMap ?info)"
    by blast
  moreover have "\<forall>i<2::nat. Some (int i) \<in> receivedChunksMap ?info"
    by (auto simp: less_Suc_eq numeral_2_eq_2)
  ultimately have passes: "allChunksReceived ?info" by blast
  show ?thesis
    using fresh whole sess total range cnt passes
    by (intro conjI exI [of _ ?info]) simp_all
qed

text \<open>
  The claim as stated fails in both directions. A session for two chunks that accepted
  the indices 0 and 5 passes the test although index 1 was never accepted; a session for
  two chunks that accepted 0, 1 and 5 has every index of its range and fails the test.
\<close>

theorem count_reached_with_index_out_of_range:
  "chunkedUploads
     (run [Init sample_env (Some ''u'') (Some ''a.txt'') (Some ''2'') (Some ''8'') None None,
           Chunk (Some ''u'') (Some ''0'') (Some [0x43]),
           Chunk (Some ''u'') (Some ''5'') (Some [0x41])] server0) ''u'' \<noteq> None \<and>
   totalChunks (the (chunkedUploads
     (run [Init sample_env (Some ''u'') (Some ''a.txt'') (Some ''2'') (Some ''8'') None None,
           Chunk (Some ''u'') (Some ''0'') (Some [0x43]),
           Chunk (Some ''u'') (Some ''5'') (Some [0x41])] server0) ''u'')) = Some 2 \<and>
   allChunksReceived (the (chunkedUploads
     (run [Init sample_env (Some ''u'') (Some ''a.txt'') (Some ''2'') (Some ''8'') None None,
           Chunk (Some ''u'') (Some ''0'') (Some [0x43]),
           Chunk (Some ''u'') (Some ''5'') (Some [0x41])] server0) ''u'')) \<and>
   Some 1 \<notin> receivedChunksMap (the (chunkedUploads
     (run [Init sample_env (Some ''u'') (Some ''a.txt'') (Some ''2'') (Some ''8'') None None,
           Chunk (Some ''u'') (Some ''0'') (Some [0x43]),
           Chunk (Some ''u'') (Some ''5'') (Some [0x41])] server0) ''u'')) \<and>
   receivedChunksMap (the (chunkedUploads
     (run [Init sample_env (Some ''u'') (Some ''a.txt'') (Some ''2'') (Some ''8'') None None,
           Chunk (Some ''u'') (Some ''0'') (Some [0x43]),
           Chunk (Some ''u'') (Some ''1'') (Some [0x41]),
           Chunk (Some ''u'') (Some ''5'') (Some [0x42])] server0) ''u'')) = {Some 0, Some 1, Some 5} \<and>
   \<not> allChunksReceived (the (chunkedUploads
     (run [Init sample_env (Some ''u'') (Some ''a.txt'') (Some ''2'') (Some ''8'') None None,
           Chunk (Some ''u'') (Some ''0'') (Some [0x43]),
           Chunk (Some ''u'') (Some ''1'') (Some [0x41]),
           Chunk (Some ''u'') (Some ''5'') (Some [0x42])] server0) ''u''))"
  by (simp add: handler_defs parseInt_samples insert_commute)

text \<open>
  Requests that overlap. Two requests for index 0 are checked before either write has
  finished: both pass the test of the received set, both callbacks run, and the session
  for two chunks passes the completeness test with one element in its received set.
\<close>

lemma overlapping_retry_is_counted_twice:
  "chunk_start (Some ''u'') (Some ''0'') (Some [0x43])
     (run [Init sample_env (Some ''u'') (Some ''a.txt'') (Some ''2'') (Some ''8'') None None]
        server0) = Writing ''u'' [''chunks'', ''u'', ''0''] [0x43] (Some 0) \<and>
   receivedChunks (the (chunkedUploads
     (run [Init sample_env (Some ''u'') (Some ''a.txt'') (Some ''2'') (Some ''8'') None None,
           ChunkFinish ''u'' [''chunks'', ''u'', ''0''] [0x43] (Some 0),
           ChunkFinish ''u'' [''chunks'', ''u'', ''0''] [0x43] (Some 0)] server0) ''u'')) = 2 \<and>
   receivedChunksMap (the (chunkedUploads
     (run [Init sample_env (Some ''u'') (Some ''a.txt'') (Some ''2'') (Some ''8'') None None,
           ChunkFinish ''u'' [''chunks'', ''u'', ''0''] [0x43] (Some 0),
           ChunkFinish ''u'' [''chunks'', ''u'', ''0''] [0x43] (Some 0)] server0) ''u'')) = {Some 0} \<and>
   allChunksReceived (the (chunkedUploads
     (run [Init sample_env (Some ''u'') (Some ''a.txt'') (Some ''2'') (Some ''8'') None None,
           ChunkFinish ''u'' [''chunks'', ''u'', ''0''] [0x43] (Some 0),
           ChunkFinish ''u'' [''chunks'', ''u'', ''0''] [0x43] (Some 0)] server0) ''u''))"
  by (simp add: handler_defs chunk_start_def chunk_finish_def parseInt_samples)

section \<open>Compression that does not shrink the file\<close>

text \<open>
  Claim C5 holds on the single upload and fails on the chunked completion. A file of at
  least 10 KiB whose gzip output is not smaller is uploaded honestly (the declared
  \<open>fileSize\<close> is its length) in one chunk and completed with compression requested:
  the handler stores the gzip output and records and reports \<open>compressed = true\<close>.
  The single upload of the same bytes with \<^verbatim>\<open>optimized=true\<close> unlinks the gzip
  output, keeps the original and records and reports \<open>compressed = false\<close>.
\<close>

theorem chunked_completion_never_falls_back:
  assumes big: "10 * 1024 \<le> length data" and lim: "length data \<le> 15 * 1024 * 1024"
    and worse: "length data \<le> length (gzip e data)"
    and st1: "st1 = run [Init einit (Some uid) (Some fname) (Some ''1'')
                          (Some (toString_nat (length data))) mimeF csizeF,
                         Chunk (Some uid) (Some ''0'') (Some data)] st"
  shows "(\<exists>body.
            fst (upload_complete e (Some uid) True st1) = CompleteOk body \<and>
            res_compressed body = True \<and>
            res_size body = length (gzip e data) \<and>
            rec_compressed (last (db_files (snd (upload_complete e (Some uid) True st1)))) = True \<and>
            disk (snd (upload_complete e (Some uid) True st1))
              (path_join uploadsDir (chunked_filename e fname True)) = Some (gzip e data)) \<and>
         (\<forall>f. content f = data \<longrightarrow>
            (\<exists>body.
               fst (upload_file e (Some f) (Some ''true'') st) = UploadOk body \<and>
               res_compressed body = False \<and>
               rec_compressed (last (db_files (snd (upload_file e (Some f) (Some ''true'') st)))) = False \<and>
               disk (snd (upload_file e (Some f) (Some ''true'') st))
                 (path_join uploadsDir (multer_filename f)) = Some data))"
proof (intro conjI allI impI)
  have ne: "data \<noteq> []" using big by auto
  have sz: "parseInt_field (Some (toString_nat (length data))) = Some (int (length data))"
    by (simp add: parseInt_field_def parseInt_toString_nat)
  show "\<exists>body.
            fst (upload_complete e (Some uid) True st1) = CompleteOk body \<and>
            res_compressed body = True \<and>
            res_size body = length (gzip e data) \<and>
            rec_compressed (last (db_files (snd (upload_complete e (Some uid) True st1)))) = True \<and>
            disk (snd (upload_complete e (Some uid) True st1))
              (path_join uploadsDir (chunked_filename e fname True)) = Some (gzip e data)"
    unfolding st1 using ne lim big sz
    by (simp add: upload_init_def upload_chunk_def upload_complete_def parseInt_field_def
        parseInt_samples prop_key_def path_join_def chunksDir_def uploadsDir_def Let_def
        allChunksReceived_def loop_bound_def num_lt_def combineChunks_one)
next
  fix f :: reqFile
  assume f: "content f = data"
  have neq: "multer_filename f @ ''.gz'' \<noteq> multer_filename f" by simp
  show "\<exists>body.
               fst (upload_file e (Some f) (Some ''true'') st) = UploadOk body \<and>
               res_compressed body = False \<and>
               rec_compressed (last (db_files (snd (upload_file e (Some f) (Some ''true'') st)))) = False \<and>
               disk (snd (upload_file e (Some f) (Some ''true'') st))
                 (path_join uploadsDir (multer_filename f)) = Some data"
    using f big lim worse
    by (auto simp add: upload_file_def Let_def path_join_def uploadsDir_def)
qed

text \<open>
  The witness: 10240 bytes, with the sample compressor, whose output has 10242 bytes.
\<close>

theorem chunked_completion_never_falls_back_witness:
  "\<exists>body.
     fst (upload_complete sample_env (Some ''u'') True
            (run [Init sample_env (Some ''u'') (Some ''a.bin'') (Some ''1'')
                    (Some (toString_nat (length (replicate 10240 (0 :: byte))))) None None,
                  Chunk (Some ''u'') (Some ''0'') (Some (replicate 10240 0))] server0)) =
       CompleteOk body \<and>
     res_compressed body = True \<and>
     res_size body = 10242 \<and>
     length (replicate 10240 (0 :: byte)) = 10240 \<and>
     length (gzip sample_env (replicate 10240 0)) = 10242"
proof -
  let ?data = "replicate 10240 (0 :: byte)"
  have big: "10 * 1024 \<le> length ?data" and lim: "length ?data \<le> 15 * 1024 * 1024" by simp_all
  have gz: "length (gzip sample_env ?data) = 10242" by (simp add: sample_env_def)
  have worse: "length ?data \<le> length (gzip sample_env ?data)" unfolding gz by simp
  from chunked_completion_never_falls_back [OF big lim worse refl,
      where einit = sample_env and uid = "''u''" and fname = "''a.bin''" and mimeF = None
        and csizeF = None and st = server0]
  obtain body where
    "fst (upload_complete sample_env (Some ''u'') True
            (run [Init sample_env (Some ''u'') (Some ''a.bin'') (Some ''1'')
                    (Some (toString_nat (length ?data))) None None,
                  Chunk (Some ''u'') (Some ''0'') (Some ?data)] server0)) = CompleteOk body"
    "res_compressed body = True" "res_size body = length (gzip sample_env ?data)"
    by blast
  then show ?thesis using gz by auto
qed

section \<open>The earlier revision\<close>

text \<open>
  The handlers of \<^verbatim>\<open>server.js\<close> agree with the current revision on the init
  handler, on the failure of a completion whose chunk file is absent, and on the assembly
  in index order when every index arrives once.
\<close>

lemma legacy_init_replaces_session:
  "legacy_upload_init e (Some uid) fname totalF sizeF mimeF st =
     (LgInitOk,
      st\<lparr>lg_chunkedUploads := (lg_chunkedUploads st)(uid \<mapsto>
          \<lparr>lg_filename = fname, lg_totalChunks = parseInt_field totalF, lg_receivedChunks = 0,
           lg_fileSize = parseInt_field sizeF, lg_mimeType = mimeF,
           lg_uploadChunksDir = path_join chunksDir uid, lg_createdAt = dateNow e\<rparr>)\<rparr>)"
  by (simp add: legacy_upload_init_def)

lemma legacy_complete_fails_on_missing_chunk:
  assumes sess: "lg_chunkedUploads st (prop_key uploadId) = Some info"
    and total: "lg_totalChunks info = Some (int n)"
    and count: "lg_receivedChunks info = n"
    and i: "i < n"
    and gone: "lg_disk st (path_join (lg_uploadChunksDir info) (toString_nat i)) = None"
  shows "fst (legacy_upload_complete e uploadId st) = LgCompleteFailed \<and>
         lg_chunkedUploads (snd (legacy_upload_complete e uploadId st)) = lg_chunkedUploads st \<and>
         lg_db_files (snd (legacy_upload_complete e uploadId st)) = lg_db_files st"
proof (cases "lg_filename info")
  case None
  then show ?thesis
    using sess total count by (simp add: legacy_upload_complete_def)
next
  case (Some fname)
  let ?dir = "lg_uploadChunksDir info"
  let ?d0 = "(lg_disk st)(path_join uploadsDir (chunked_filename e fname False) \<mapsto> [])"
  have same: "?d0 (path_join ?dir (toString_nat m)) = lg_disk st (path_join ?dir (toString_nat m))" for m
    using chunk_path_not_chunked_filename [of ?dir m] by simp
  obtain j where j: "j \<le> i" "lg_disk st (path_join ?dir (toString_nat j)) = None"
    "\<forall>m<j. lg_disk st (path_join ?dir (toString_nat m)) \<noteq> None"
    using first_missing [of "lg_disk st" ?dir i] gone by blast
  have "\<exists>piped. combineChunks ?d0 ?dir 0 n [] = Inl (MissingChunk j, piped)"
    using j i by (intro combineChunks_missing) (simp_all only: same, simp_all)
  then obtain piped where c: "combineChunks ?d0 ?dir 0 n [] = Inl (MissingChunk j, piped)" ..
  show ?thesis
    using sess total count Some c
    by (simp add: legacy_upload_complete_def loop_bound_def Let_def)
qed

lemma legacy_send_chunks_run:
  assumes sess: "lg_chunkedUploads s uid = Some info"
    and files: "\<And>j. j \<in> A \<Longrightarrow>
        lg_disk s (path_join (lg_uploadChunksDir info) (toString_nat j)) = Some (payload j)"
    and ok: "\<And>i. i \<in> set order \<Longrightarrow> length (payload i) \<le> 10 * 1024 * 1024"
  shows "lg_chunkedUploads (legacy_send_chunks uid payload order s) uid =
           Some (info\<lparr>lg_receivedChunks := lg_receivedChunks info + length order\<rparr>) \<and>
         (\<forall>j. j \<in> A \<union> set order \<longrightarrow>
              lg_disk (legacy_send_chunks uid payload order s)
                (path_join (lg_uploadChunksDir info) (toString_nat j)) = Some (payload j)) \<and>
         lg_db_files (legacy_send_chunks uid payload order s) = lg_db_files s"
  using assms
proof (induction order arbitrary: s info A)
  case Nil
  then show ?case by simp
next
  case (Cons i order)
  let ?s' = "snd (legacy_upload_chunk (Some uid) (Some (toString_nat i)) (Some (payload i)) s)"
  let ?info' = "info\<lparr>lg_receivedChunks := Suc (lg_receivedChunks info)\<rparr>"
  have oki: "length (payload i) \<le> 10 * 1024 * 1024" using Cons.prems(3) [of i] by simp
  have s1: "lg_chunkedUploads ?s' uid = Some ?info'"
    using Cons.prems(1) oki by (simp add: legacy_upload_chunk_def prop_key_def Let_def)
  have s2: "lg_disk ?s' (path_join (lg_uploadChunksDir ?info') (toString_nat j)) = Some (payload j)"
    if "j \<in> insert i A" for j
    using Cons.prems(1) oki that Cons.prems(2) [of j]
    by (auto simp add: legacy_upload_chunk_def prop_key_def Let_def chunk_path_inj)
  have s3: "lg_db_files ?s' = lg_db_files s"
    using Cons.prems(1) oki by (simp add: legacy_upload_chunk_def prop_key_def Let_def)
  have ih: "lg_chunkedUploads (legacy_send_chunks uid payload order ?s') uid =
           Some (?info'\<lparr>lg_receivedChunks := lg_receivedChunks ?info' + length order\<rparr>) \<and>
         (\<forall>j. j \<in> insert i A \<union> set order \<longrightarrow>
              lg_disk (legacy_send_chunks uid payload order ?s')
                (path_join (lg_uploadChunksDir ?info') (toString_nat j)) = Some (payload j)) \<and>
         lg_db_files (legacy_send_chunks uid payload order ?s') = lg_db_files ?s'"
    using Cons.prems(3) by (intro Cons.IH [OF s1 s2]) simp_all
  show ?case using ih s3 by simp
qed

lemma legacy_chunks_assemble_in_index_order:
  assumes perm: "distinct order" "set order = {..<n}"
    and ok: "\<forall>i<n. length (payload i) \<le> 10 * 1024 * 1024"
    and st1: "st1 = legacy_send_chunks uid payload order
                (snd (legacy_upload_init einit (Some uid) (Some fname) (Some (toString_nat n))
                        sizeF mimeF st))"
  shows "fst (legacy_upload_complete e (Some uid) st1) =
           LgCompleteOk (toString_hex (randomBytes3 e)) fname (parseInt_field sizeF) \<and>
         lg_disk (snd (legacy_upload_complete e (Some uid) st1))
           (path_join uploadsDir (chunked_filename e fname False)) =
           Some (concat (map payload [0..<n]))"
proof -
  let ?s0 = "snd (legacy_upload_init einit (Some uid) (Some fname) (Some (toString_nat n))
                        sizeF mimeF st)"
  let ?info0 = "\<lparr>lg_filename = Some fname, lg_totalChunks = Some (int n), lg_receivedChunks = 0,
           lg_fileSize = parseInt_field sizeF, lg_mimeType = mimeF,
           lg_uploadChunksDir = path_join chunksDir uid, lg_createdAt = dateNow einit\<rparr>"
  let ?dir = "path_join chunksDir uid"
  have s0: "lg_chunkedUploads ?s0 uid = Some ?info0"
    by (simp add: legacy_upload_init_def parseInt_field_def parseInt_toString_nat)
  have okm: "\<And>i. i \<in> set order \<Longrightarrow> length (payload i) \<le> 10 * 1024 * 1024"
    using ok perm by simp
  have len: "length order = n"
    using perm distinct_card [of order] by simp
  from legacy_send_chunks_run [OF s0, of "{}" payload order] okm
  have sent: "lg_chunkedUploads st1 uid = Some (?info0\<lparr>lg_receivedChunks := n\<rparr>)"
    and files: "\<And>j. j < n \<Longrightarrow> lg_disk st1 (path_join ?dir (toString_nat j)) = Some (payload j)"
    unfolding st1 using perm len by simp_all
  let ?fp = "path_join uploadsDir (chunked_filename e fname False)"
  let ?d0 = "(lg_disk st1)(?fp \<mapsto> [])"
  have same: "?d0 (path_join ?dir (toString_nat j)) = lg_disk st1 (path_join ?dir (toString_nat j))" for j
    using chunk_path_not_chunked_filename [of ?dir j] by simp
  have comb: "combineChunks ?d0 ?dir 0 n [] = Inr ([] @ concat (map payload [0..<n]))"
    by (rule combineChunks_all) (simp only: same files)
  have away: "take (length ?dir) ?fp \<noteq> ?dir"
    by (simp add: path_join_def chunksDir_def uploadsDir_def)
  show ?thesis
    using sent comb away
    by (simp add: legacy_upload_complete_def prop_key_def loop_bound_def Let_def)
qed

text \<open>
  They differ in two places. The earlier chunk handler has no received set: every chunk
  request of a session that carries a file within multer's limit renames the file onto
  the chunk path and increments the counter.
\<close>

lemma legacy_chunk_counts_every_request:
  assumes "lg_chunkedUploads st (prop_key uploadId) = Some info"
    and "length b \<le> 10 * 1024 * 1024"
  shows "legacy_upload_chunk uploadId (Some idx) (Some b) st =
           (LgChunkOk (Suc (lg_receivedChunks info)) (lg_totalChunks info),
            st\<lparr>lg_disk := (lg_disk st)(path_join (lg_uploadChunksDir info) idx \<mapsto> b),
               lg_chunkedUploads := (lg_chunkedUploads st)
                 (prop_key uploadId \<mapsto> info\<lparr>lg_receivedChunks := Suc (lg_receivedChunks info)\<rparr>)\<rparr>)"
  using assms by (simp add: legacy_upload_chunk_def Let_def)

text \<open>
  Claim C3 fails for the chunk handler of \<^verbatim>\<open>server.js\<close>. A session for two
  chunks receives index 0 with the byte 0x43 and is answered with the count 1; index 0
  is submitted again with the byte 0x44. The second request is answered like the first
  (the answer of this handler has no duplicate field), with the count 2; the stored
  count is 2, which equals \<open>totalChunks\<close> although index 1 never arrived, and the
  stored bytes of chunk 0 are now 0x44.
\<close>

theorem legacy_resubmission_is_counted:
  "fst (legacy_upload_chunk (Some ''u'') (Some ''0'') (Some [0x43])
     (snd (legacy_upload_init sample_env (Some ''u'') (Some ''a.txt'') (Some ''2'') (Some ''8'')
        None legacy_server0))) = LgChunkOk 1 (Some 2) \<and>
   lg_disk (snd (legacy_upload_chunk (Some ''u'') (Some ''0'') (Some [0x43])
     (snd (legacy_upload_init sample_env (Some ''u'') (Some ''a.txt'') (Some ''2'') (Some ''8'')
        None legacy_server0)))) [''chunks'', ''u'', ''0''] = Some [0x43] \<and>
   fst (legacy_upload_chunk (Some ''u'') (Some ''0'') (Some [0x44])
     (snd (legacy_upload_chunk (Some ''u'') (Some ''0'') (Some [0x43])
       (snd (legacy_upload_init sample_env (Some ''u'') (Some ''a.txt'') (Some ''2'') (Some ''8'')
          None legacy_server0))))) = LgChunkOk 2 (Some 2) \<and>
   map_option lg_receivedChunks (lg_chunkedUploads
     (snd (legacy_upload_chunk (Some ''u'') (Some ''0'') (Some [0x44])
       (snd (legacy_upload_chunk (Some ''u'') (Some ''0'') (Some [0x43])
         (snd (legacy_upload_init sample_env (Some ''u'') (Some ''a.txt'') (Some ''2'') (Some ''8'')
            None legacy_server0)))))) ''u'') = Some 2 \<and>
   lg_disk (snd (legacy_upload_chunk (Some ''u'') (Some ''0'') (Some [0x44])
     (snd (legacy_upload_chunk (Some ''u'') (Some ''0'') (Some [0x43])
       (snd (legacy_upload_init sample_env (Some ''u'') (Some ''a.txt'') (Some ''2'') (Some ''8'')
          None legacy_server0)))))) [''chunks'', ''u'', ''0''] = Some [0x44]"
  by (simp add: legacy_upload_chunk_def legacy_upload_init_def legacy_server0_def Let_def
      parseInt_field_def parseInt_samples prop_key_def path_join_def chunksDir_def)

text \<open>
  The earlier complete handler writes the \<open>fileSize\<close> declared at init into the
  record and the response, whatever it assembled.
\<close>

lemma legacy_complete_reports_declared_size:
  assumes "legacy_upload_complete e uploadId st = (LgCompleteOk code fname sz, st')"
  shows "\<exists>info rcd.
           lg_chunkedUploads st (prop_key uploadId) = Some info \<and>
           sz = lg_fileSize info \<and>
           lg_db_files st' = lg_db_files st @ [rcd] \<and> lg_size rcd = lg_fileSize info"
  using assms
  by (auto simp: legacy_upload_complete_def Let_def
      split: option.splits if_splits sum.splits prod.splits)

text \<open>
  Claim C7 fails for the complete handler of \<^verbatim>\<open>server.js\<close>. A session declared
  with \<open>fileSize = 100\<close> for one chunk receives a chunk of two bytes and is completed.
  The completion succeeds; the artifact on disk is the two bytes; the size in the
  response and the size in the file record are both 100.
\<close>

theorem legacy_completion_reports_declared_size:
  "fst (legacy_upload_complete sample_env (Some ''u'')
     (snd (legacy_upload_chunk (Some ''u'') (Some ''0'') (Some [0x41, 0x42])
       (snd (legacy_upload_init sample_env (Some ''u'') (Some ''a.txt'') (Some ''1'') (Some ''100'')
          None legacy_server0))))) = LgCompleteOk ''0aff10'' ''a.txt'' (Some 100) \<and>
   map lg_size (lg_db_files (snd (legacy_upload_complete sample_env (Some ''u'')
     (snd (legacy_upload_chunk (Some ''u'') (Some ''0'') (Some [0x41, 0x42])
       (snd (legacy_upload_init sample_env (Some ''u'') (Some ''a.txt'') (Some ''1'') (Some ''100'')
          None legacy_server0))))))) = [Some 100] \<and>
   map lg_storedFilename (lg_db_files (snd (legacy_upload_complete sample_env (Some ''u'')
     (snd (legacy_upload_chunk (Some ''u'') (Some ''0'') (Some [0x41, 0x42])
       (snd (legacy_upload_init sample_env (Some ''u'') (Some ''a.txt'') (Some ''1'') (Some ''100'')
          None legacy_server0))))))) = [chunked_filename sample_env ''a.txt'' False] \<and>
   lg_disk (snd (legacy_upload_complete sample_env (Some ''u'')
     (snd (legacy_upload_chunk (Some ''u'') (Some ''0'') (Some [0x41, 0x42])
       (snd (legacy_upload_init sample_env (Some ''u'') (Some ''a.txt'') (Some ''1'') (Some ''100'')
          None legacy_server0))))))
     (path_join uploadsDir (chunked_filename sample_env ''a.txt'' False)) = Some [0x41, 0x42]"
proof -
  have code: "toString_hex (randomBytes3 sample_env) = ''0aff10''"
    by (simp add: sample_env_def toString_hex_def hex_byte_def hex_digit_def)
  show ?thesis
    using code
    by (simp add: legacy_upload_chunk_def legacy_upload_init_def legacy_upload_complete_def
      legacy_server0_def Let_def parseInt_field_def parseInt_samples prop_key_def path_join_def
      chunksDir_def uploadsDir_def loop_bound_def combineChunks_one)
qed

end
